theory Spec2Isabelle
  imports Main
begin

section \<open>Values shared by monitor.py and discovery.py\<close>

text \<open>
  Python dictionaries that are serialised with \<^verbatim>\<open>json.dumps\<close> are modelled as JSON
  trees whose objects keep their keys in insertion order; the payload of a message is
  the tree handed to \<^verbatim>\<open>json.dumps\<close>.
\<close>

datatype json =
    JBool bool
  | JInt int
  | JStr string
  | JList "json list"
  | JObj "(string \<times> json) list"

fun dict_get :: "json \<Rightarrow> string \<Rightarrow> json option" where
  "dict_get (JObj kvs) k = map_of kvs k"
| "dict_get (JBool b) k = None"
| "dict_get (JInt i) k = None"
| "dict_get (JStr s) k = None"
| "dict_get (JList xs) k = None"

text \<open>Exceptions are values; \<open>str_exn\<close> is what \<^verbatim>\<open>f"{e}"\<close> prints.\<close>

datatype exn =
    KeyError string
  | TypeError string
  | AttributeError string
  | ValueError string
  | LibraryError string

fun str_exn :: "exn \<Rightarrow> string" where
  "str_exn (KeyError k) = [CHR 0x27] @ k @ [CHR 0x27]"
| "str_exn (TypeError m) = m"
| "str_exn (AttributeError m) = m"
| "str_exn (ValueError m) = m"
| "str_exn (LibraryError m) = m"

datatype level = LDebug | LInfo | LWarning | LError

type_synonym log_entry = "level \<times> string"

subsection \<open>Strings\<close>

text \<open>\<^verbatim>\<open>str(n)\<close> for a Python integer.\<close>

fun str_nat :: "nat \<Rightarrow> string" where
  "str_nat n =
     (if n < 10 then [''0123456789'' ! n]
      else str_nat (n div 10) @ [''0123456789'' ! (n mod 10)])"

declare str_nat.simps [simp del]

definition str_int :: "int \<Rightarrow> string" where
  "str_int i = (if i < 0 then CHR ''-'' # str_nat (nat (- i)) else str_nat (nat i))"

text \<open>\<^verbatim>\<open>s.replace(old, new)\<close> for a one-character \<open>old\<close>.\<close>

definition replace_char :: "char \<Rightarrow> string \<Rightarrow> string \<Rightarrow> string" where
  "replace_char old new s = concat (map (\<lambda>ch. if ch = old then new else [ch]) s)"

text \<open>\<^verbatim>\<open>s.rsplit(":", 1)\<close> for a string that contains a colon: the parts before and
  after the last colon.\<close>

definition rsplit_colon :: "string \<Rightarrow> string \<times> string" where
  "rsplit_colon s =
     (rev (tl (dropWhile (\<lambda>ch. ch \<noteq> CHR '':'') (rev s))),
      rev (takeWhile (\<lambda>ch. ch \<noteq> CHR '':'') (rev s)))"

section \<open>monitor.py: uptime\<close>

text \<open>
  \<^verbatim>\<open>datetime.fromisoformat\<close> is the standard library's parser; it is a parameter of the
  model. A parsed timestamp is either naive or aware; an aware one is the number of
  microseconds since the epoch, in UTC. \<^verbatim>\<open>datetime.now(timezone.utc)\<close> is aware, and
  subtracting a naive timestamp from it raises TypeError.
\<close>

datatype datetime = Naive int | Aware int

type_synonym parser = "string \<Rightarrow> exn + datetime"

definition sub_datetime :: "int \<Rightarrow> datetime \<Rightarrow> exn + int" where
  "sub_datetime now started_at =
     (case started_at of
        Naive t \<Rightarrow> Inl (TypeError ''can't subtract offset-naive and offset-aware datetimes'')
      | Aware t \<Rightarrow> Inr (now - t))"

text \<open>The fields of a normalised \<^verbatim>\<open>timedelta\<close> of \<open>us\<close> microseconds:
  \<open>days\<close> may be negative, \<open>0 \<le> seconds < 86400\<close>.\<close>

definition td_days :: "int \<Rightarrow> int" where
  "td_days us = us div 86400000000"

definition td_seconds :: "int \<Rightarrow> int" where
  "td_seconds us = (us mod 86400000000) div 1000000"

definition calculate_uptime :: "parser \<Rightarrow> int \<Rightarrow> string \<Rightarrow> string \<times> log_entry list" where
  "calculate_uptime fromisoformat now started_at_str =
     (if started_at_str = [] \<or> started_at_str = ''0001-01-01T00:00:00Z'' then (''Not started'', [])
      else
        (case fromisoformat (replace_char CHR ''Z'' ''+00:00'' started_at_str) of
           Inl e \<Rightarrow> (''Unknown'', [(LDebug, ''Error calculating uptime: '' @ str_exn e)])
         | Inr started_at \<Rightarrow>
             (case sub_datetime now started_at of
                Inl e \<Rightarrow> (''Unknown'', [(LDebug, ''Error calculating uptime: '' @ str_exn e)])
              | Inr uptime_delta \<Rightarrow>
                  (let days = td_days uptime_delta;
                       hours = td_seconds uptime_delta div 3600;
                       remainder = td_seconds uptime_delta mod 3600;
                       minutes = remainder div 60;
                       seconds = remainder mod 60
                   in if days > 0 then
                        (str_int days @ ''d '' @ str_int hours @ ''h '' @ str_int minutes @ ''m'', [])
                      else if hours > 0 then
                        (str_int hours @ ''h '' @ str_int minutes @ ''m'', [])
                      else
                        (str_int minutes @ ''m '' @ str_int seconds @ ''s'', [])))))"

text \<open>
  The format the specification describes, in terms of the elapsed whole seconds:
  at least a day, at least an hour, otherwise.
\<close>

definition uptime_format_spec :: "int \<Rightarrow> string" where
  "uptime_format_spec secs =
     (if secs \<ge> 86400 then
        str_int (secs div 86400) @ ''d '' @ str_int (secs mod 86400 div 3600) @ ''h ''
          @ str_int (secs mod 3600 div 60) @ ''m''
      else if secs \<ge> 3600 then
        str_int (secs div 3600) @ ''h '' @ str_int (secs mod 3600 div 60) @ ''m''
      else
        str_int (secs div 60) @ ''m '' @ str_int (secs mod 60) @ ''s'')"

text \<open>A parser that knows two timestamps, for concrete evaluation: the epoch and
  one second after it.\<close>

definition example_parser :: parser where
  "example_parser s =
     (if s = ''1970-01-01T00:00:00+00:00'' then Inr (Aware 0)
      else if s = ''1970-01-01T00:00:01+00:00'' then Inr (Aware 1000000)
      else if s = ''1970-01-01T00:00:00'' then Inr (Naive 0)
      else Inl (ValueError (''Invalid isoformat string: '' @ [CHR 0x27] @ s @ [CHR 0x27])))"

section \<open>The runtime client and the publish client\<close>

text \<open>
  What the Docker SDK reports for one container. \<open>attrs\<close> are the attributes cached
  when the container was enumerated; \<open>reload\<close> is the outcome of
  \<^verbatim>\<open>container.reload()\<close> (an exception, or the refreshed attributes);
  \<open>image_tags\<close> is the outcome of \<^verbatim>\<open>container.image.tags\<close>, which asks the
  runtime for the image. A key that a dictionary may lack is an optional field, and
  reading a missing key raises KeyError.
\<close>

record health_attrs =
  HealthStatus :: "string option"

record state_attrs =
  Running :: "bool option"
  Status :: "string option"
  Health :: "health_attrs option"
  StartedAt :: "string option"
  Pid :: "int option"
  ExitCode :: "int option"
  Error :: "string option"

record config_attrs =
  Image :: "string option"

record attrs =
  State :: "state_attrs option"
  Config :: "config_attrs option"

record container =
  name :: string
  status :: string
  attrs :: attrs
  reload :: "exn + attrs"
  image_tags :: "exn + string list"

text \<open>\<^verbatim>\<open>attrs["Config"]["Image"]\<close>\<close>

definition config_image :: "attrs \<Rightarrow> exn + string" where
  "config_image a =
     (case Config a of
        None \<Rightarrow> Inl (KeyError ''Config'')
      | Some cf \<Rightarrow> (case Image cf of None \<Rightarrow> Inl (KeyError ''Image'') | Some i \<Rightarrow> Inr i))"

text \<open>
  A published message. The world records the publish calls the client accepted, in
  order, and the calls made to the logger.
\<close>

record message =
  topic :: string
  payload :: json
  retain :: bool

record world =
  published :: "message list"
  log :: "log_entry list"

definition logger :: "level \<Rightarrow> string \<Rightarrow> world \<Rightarrow> world" where
  "logger lv msg w = w\<lparr>log := log w @ [(lv, msg)]\<rparr>"

definition log_all :: "log_entry list \<Rightarrow> world \<Rightarrow> world" where
  "log_all ls w = w\<lparr>log := log w @ ls\<rparr>"

text \<open>
  A connected client is its reaction to a publish call: \<open>None\<close> when the call
  returns, \<open>Some e\<close> when it raises \<open>e\<close> (paho refuses, for instance, a topic with a
  wildcard). The variable \<^verbatim>\<open>mqtt_client\<close> holds a client or Python's \<^verbatim>\<open>None\<close>;
  calling \<^verbatim>\<open>None.publish\<close> raises AttributeError.
\<close>

type_synonym mqtt_client = "message \<Rightarrow> exn option"

definition client_publish :: "mqtt_client option \<Rightarrow> message \<Rightarrow> world \<Rightarrow> exn option \<times> world" where
  "client_publish mqtt_client m w =
     (case mqtt_client of
        None \<Rightarrow> (Some (AttributeError ([CHR 0x27] @ ''NoneType' object has no attribute 'publish'' @ [CHR 0x27])), w)
      | Some cl \<Rightarrow>
          (case cl m of
             Some e \<Rightarrow> (Some e, w)
           | None \<Rightarrow> (None, w\<lparr>published := published w @ [m]\<rparr>)))"

fun publish_all :: "mqtt_client option \<Rightarrow> message list \<Rightarrow> world \<Rightarrow> exn option \<times> world" where
  "publish_all mqtt_client [] w = (None, w)"
| "publish_all mqtt_client (m # ms) w =
     (case client_publish mqtt_client m w of
        (Some e, w') \<Rightarrow> (Some e, w')
      | (None, w') \<Rightarrow> publish_all mqtt_client ms w')"

text \<open>The environment variables both scripts read at import time, and the resolved
  version string.\<close>

record config =
  SENTRYLAB_VERSION :: string
  HA_BASE_TOPIC :: string
  DEVICE_NAME :: string
  DEVICE_ID :: string
  PROXMOX_HOST :: string
  PROXMOX_VMID :: string
  DEBUG :: bool

definition default_config :: config where
  "default_config =
     \<lparr>SENTRYLAB_VERSION = ''unknown'', HA_BASE_TOPIC = ''homeassistant'',
      DEVICE_NAME = ''Docker Host'', DEVICE_ID = ''docker_host'',
      PROXMOX_HOST = ''proxmox'', PROXMOX_VMID = ''0'', DEBUG = False\<rparr>"

text \<open>Two clock readings are taken while one container is processed:
  \<^verbatim>\<open>datetime.now(timezone.utc)\<close> and \<^verbatim>\<open>datetime.utcnow().isoformat()\<close>.\<close>

record clock_reading =
  now_utc :: int
  utcnow_iso :: string

section \<open>monitor.py: container state and fleet summary\<close>

text \<open>The image reference is split into name and tag.\<close>

definition split_image :: "string \<Rightarrow> string \<times> string" where
  "split_image image_full =
     (if CHR '':'' \<in> set image_full then rsplit_colon image_full
      else (image_full, ''latest''))"

text \<open>The inner \<^verbatim>\<open>try\<close> of \<open>get_container_state\<close>: \<open>(image_name, image_version)\<close>.\<close>

definition monitor_image_info :: "container \<Rightarrow> string \<Rightarrow> string \<times> string" where
  "monitor_image_info c image_raw =
     (case image_tags c of
        Inl e \<Rightarrow> (image_raw, ''unknown'')
      | Inr tags \<Rightarrow> split_image (case tags of [] \<Rightarrow> image_raw | t # ts \<Rightarrow> t))"

text \<open>The body of the outer \<^verbatim>\<open>try\<close> of \<open>get_container_state\<close>.\<close>

definition container_state :: "parser \<Rightarrow> clock_reading \<Rightarrow> container \<Rightarrow> (exn + json) \<times> log_entry list" where
  "container_state fromisoformat clk c =
     (case reload c of
        Inl e \<Rightarrow> (Inl e, [])
      | Inr a \<Rightarrow>
          (case State a of
             None \<Rightarrow> (Inl (KeyError ''State''), [])
           | Some state \<Rightarrow>
               (let health =
                      (case Health state of
                         None \<Rightarrow> ''N/A''
                       | Some h \<Rightarrow> (case HealthStatus h of None \<Rightarrow> ''N/A'' | Some s \<Rightarrow> s))
                in case config_image a of
                     Inl e \<Rightarrow> (Inl e, [])
                   | Inr image_raw \<Rightarrow>
                       (let started_at = (case StartedAt state of None \<Rightarrow> [] | Some s \<Rightarrow> s);
                            (uptime, lg) = calculate_uptime fromisoformat (now_utc clk) started_at;
                            (image_name, image_version) = monitor_image_info c image_raw
                        in (Inr (JObj
                              [(''running'', JBool (case Running state of None \<Rightarrow> False | Some b \<Rightarrow> b)),
                               (''state'', JStr (case Status state of None \<Rightarrow> ''unknown'' | Some s \<Rightarrow> s)),
                               (''health'', JStr health),
                               (''image'', JStr image_raw),
                               (''image_version'', JStr image_version),
                               (''uptime'', JStr uptime),
                               (''started_at'', JStr started_at),
                               (''pid'', JInt (case Pid state of None \<Rightarrow> 0 | Some p \<Rightarrow> p)),
                               (''exit_code'', JInt (case ExitCode state of None \<Rightarrow> 0 | Some x \<Rightarrow> x)),
                               (''error'', JStr (case Error state of None \<Rightarrow> [] | Some s \<Rightarrow> s)),
                               (''timestamp'', JStr (utcnow_iso clk))]), lg)))))"

definition get_container_state :: "parser \<Rightarrow> clock_reading \<Rightarrow> container \<Rightarrow> json option \<times> log_entry list" where
  "get_container_state fromisoformat clk c =
     (case container_state fromisoformat clk c of
        (Inl e, lg) \<Rightarrow>
          (None, lg @ [(LError, ''Error getting state for '' @ name c @ '': '' @ str_exn e)])
      | (Inr st, lg) \<Rightarrow> (Some st, lg))"

text \<open>\<^verbatim>\<open>f"{state['state']}"\<close>\<close>

definition state_text :: "json \<Rightarrow> string" where
  "state_text st = (case dict_get st ''state'' of Some (JStr s) \<Rightarrow> s | _ \<Rightarrow> [])"

definition state_topic :: "config \<Rightarrow> string \<Rightarrow> string" where
  "state_topic cfg container_name = ''docker/'' @ DEVICE_ID cfg @ ''/'' @ container_name @ ''/state''"

definition publish_container_state ::
    "parser \<Rightarrow> config \<Rightarrow> mqtt_client option \<Rightarrow> clock_reading \<Rightarrow> container \<Rightarrow> world \<Rightarrow> exn option \<times> world" where
  "publish_container_state fromisoformat cfg mqtt_client clk c w =
     (case get_container_state fromisoformat clk c of
        (None, lg) \<Rightarrow> (None, log_all lg w)
      | (Some st, lg) \<Rightarrow>
          (let w1 = log_all lg w; tp = state_topic cfg (name c) in
           case mqtt_client of
             None \<Rightarrow>
               (if DEBUG cfg
                then (None, logger LDebug (''DEBUG: Would publish to '' @ tp @ '': '' @ state_text st) w1)
                else (None, w1))
           | Some cl \<Rightarrow>
               (case client_publish mqtt_client \<lparr>topic = tp, payload = st, retain = True\<rparr> w1 of
                  (Some e, w2) \<Rightarrow> (Some e, w2)
                | (None, w2) \<Rightarrow>
                    (None, logger LDebug (''Published state for '' @ name c @ '': '' @ state_text st) w2))))"

definition summary_topic :: "config \<Rightarrow> string" where
  "summary_topic cfg = ''docker/'' @ DEVICE_ID cfg @ ''/summary''"

text \<open>The dictionary \<open>summary\<close> of \<open>publish_summary\<close>.\<close>

definition fleet_summary :: "config \<Rightarrow> string \<Rightarrow> container list \<Rightarrow> json" where
  "fleet_summary cfg ts containers =
     (let running = int (length (filter (\<lambda>c. status c = ''running'') containers));
          stopped = int (length containers) - running
      in JObj
           [(''total'', JInt (int (length containers))),
            (''running'', JInt running),
            (''stopped'', JInt stopped),
            (''sentrylab_version'', JStr (SENTRYLAB_VERSION cfg)),
            (''timestamp'', JStr ts)])"

definition publish_summary ::
    "config \<Rightarrow> mqtt_client option \<Rightarrow> string \<Rightarrow> container list \<Rightarrow> world \<Rightarrow> exn option \<times> world" where
  "publish_summary cfg mqtt_client ts containers w =
     (let running = int (length (filter (\<lambda>c. status c = ''running'') containers)) in
      case mqtt_client of
        None \<Rightarrow>
          (if DEBUG cfg
           then (None, logger LDebug (''DEBUG: Would publish summary: '' @ str_int running @ ''/''
                   @ str_nat (length containers) @ '' running, SentryLab v'' @ SENTRYLAB_VERSION cfg) w)
           else (None, w))
      | Some cl \<Rightarrow>
          (case client_publish mqtt_client
                  \<lparr>topic = summary_topic cfg, payload = fleet_summary cfg ts containers, retain = True\<rparr> w of
             (Some e, w1) \<Rightarrow> (Some e, w1)
           | (None, w1) \<Rightarrow>
               (None, logger LDebug (''Published summary: '' @ str_int running @ ''/''
                   @ str_nat (length containers) @ '' running'') w1)))"

text \<open>The \<^verbatim>\<open>for\<close> loop of \<open>monitor_containers\<close>; \<open>clock i\<close> is the reading taken while
  the container at position \<open>i\<close> is processed.\<close>

fun monitor_loop ::
    "parser \<Rightarrow> config \<Rightarrow> mqtt_client option \<Rightarrow> (nat \<Rightarrow> clock_reading) \<Rightarrow> nat \<Rightarrow> container list \<Rightarrow> world \<Rightarrow> world" where
  "monitor_loop fromisoformat cfg mqtt_client clock i [] w = w"
| "monitor_loop fromisoformat cfg mqtt_client clock i (c # cs) w =
     (case publish_container_state fromisoformat cfg mqtt_client (clock i) c w of
        (Some e, w') \<Rightarrow>
          monitor_loop fromisoformat cfg mqtt_client clock (Suc i) cs
            (logger LError (''Error monitoring '' @ name c @ '': '' @ str_exn e) w')
      | (None, w') \<Rightarrow> monitor_loop fromisoformat cfg mqtt_client clock (Suc i) cs w')"

text \<open>One poll cycle. \<open>listing\<close> is the outcome of
  \<^verbatim>\<open>docker_client.containers.list(all=True)\<close>, \<open>ts\<close> the timestamp of the summary.\<close>

definition monitor_containers ::
    "parser \<Rightarrow> config \<Rightarrow> mqtt_client option \<Rightarrow> string \<Rightarrow> (nat \<Rightarrow> clock_reading) \<Rightarrow> exn + container list \<Rightarrow> world \<Rightarrow> world" where
  "monitor_containers fromisoformat cfg mqtt_client ts clock listing w =
     (case listing of
        Inl e \<Rightarrow> logger LError (''Error monitoring containers: '' @ str_exn e) w
      | Inr containers \<Rightarrow>
          (let w1 = logger LInfo (''Monitoring '' @ str_nat (length containers) @ '' containers...'') w in
           case publish_summary cfg mqtt_client ts containers w1 of
             (Some e, w2) \<Rightarrow> logger LError (''Error monitoring containers: '' @ str_exn e) w2
           | (None, w2) \<Rightarrow>
               logger LInfo (''Updated status for '' @ str_nat (length containers) @ '' containers'')
                 (monitor_loop fromisoformat cfg mqtt_client clock 0 containers w2)))"

section \<open>discovery.py\<close>

definition create_device_info :: "config \<Rightarrow> json" where
  "create_device_info cfg =
     JObj
       [(''identifiers'', JList [JStr (DEVICE_ID cfg)]),
        (''name'', JStr (DEVICE_NAME cfg)),
        (''model'', JStr ''Docker Engine''),
        (''manufacturer'', JStr ''Docker Inc.''),
        (''sw_version'', JStr (''SentryLab-Docker v'' @ SENTRYLAB_VERSION cfg))]"

text \<open>\<^verbatim>\<open>container_name.replace("-", "_").replace(".", "_")\<close>\<close>

definition safe_name :: "string \<Rightarrow> string" where
  "safe_name container_name = replace_char CHR ''.'' ''_'' (replace_char CHR ''-'' ''_'' container_name)"

definition topic_prefix :: "config \<Rightarrow> string \<Rightarrow> string" where
  "topic_prefix cfg container_name =
     ''sl_docker_'' @ PROXMOX_HOST cfg @ ''_'' @ PROXMOX_VMID cfg @ ''_'' @ safe_name container_name"

text \<open>The image lookup of \<open>publish_container_discovery\<close>: the \<^verbatim>\<open>try\<close> block, and the
  handler, which reads the attributes again and may raise itself.\<close>

definition discovery_image_info :: "container \<Rightarrow> exn + string \<times> string" where
  "discovery_image_info c =
     (case image_tags c of
        Inr (t # ts) \<Rightarrow> Inr (split_image t)
      | Inr [] \<Rightarrow>
          (case config_image (attrs c) of
             Inr image_full \<Rightarrow> Inr (split_image image_full)
           | Inl e \<Rightarrow>
               (case config_image (attrs c) of
                  Inr image_name \<Rightarrow> Inr (image_name, ''unknown'')
                | Inl e' \<Rightarrow> Inl e'))
      | Inl e \<Rightarrow>
          (case config_image (attrs c) of
             Inr image_name \<Rightarrow> Inr (image_name, ''unknown'')
           | Inl e' \<Rightarrow> Inl e'))"

text \<open>The seven descriptors of one container, each with its discovery topic.\<close>

definition binary_sensor_config :: "config \<Rightarrow> string \<Rightarrow> json" where
  "binary_sensor_config cfg container_name =
     JObj
       [(''name'', JStr (container_name @ '' Status'')),
        (''unique_id'', JStr (topic_prefix cfg container_name @ ''_status'')),
        (''state_topic'', JStr (''docker/'' @ DEVICE_ID cfg @ ''/'' @ container_name @ ''/state'')),
        (''value_template'', JStr ''{{ value_json.running }}''),
        (''payload_on'', JStr ''true''),
        (''payload_off'', JStr ''false''),
        (''device_class'', JStr ''running''),
        (''device'', create_device_info cfg),
        (''icon'', JStr ''mdi:docker'')]"

definition binary_sensor_topic :: "config \<Rightarrow> string \<Rightarrow> string" where
  "binary_sensor_topic cfg container_name =
     HA_BASE_TOPIC cfg @ ''/binary_sensor/'' @ topic_prefix cfg container_name @ ''_status/config''"

definition state_sensor_config :: "config \<Rightarrow> string \<Rightarrow> json" where
  "state_sensor_config cfg container_name =
     JObj
       [(''name'', JStr (container_name @ '' State'')),
        (''unique_id'', JStr (topic_prefix cfg container_name @ ''_state'')),
        (''state_topic'', JStr (''docker/'' @ DEVICE_ID cfg @ ''/'' @ container_name @ ''/state'')),
        (''value_template'', JStr ''{{ value_json.state }}''),
        (''device'', create_device_info cfg),
        (''icon'', JStr ''mdi:information-outline'')]"

definition state_sensor_topic :: "config \<Rightarrow> string \<Rightarrow> string" where
  "state_sensor_topic cfg container_name =
     HA_BASE_TOPIC cfg @ ''/sensor/'' @ topic_prefix cfg container_name @ ''_state/config''"

definition uptime_sensor_config :: "config \<Rightarrow> string \<Rightarrow> json" where
  "uptime_sensor_config cfg container_name =
     JObj
       [(''name'', JStr (container_name @ '' Uptime'')),
        (''unique_id'', JStr (topic_prefix cfg container_name @ ''_uptime'')),
        (''state_topic'', JStr (''docker/'' @ DEVICE_ID cfg @ ''/'' @ container_name @ ''/state'')),
        (''value_template'', JStr ''{{ value_json.uptime }}''),
        (''device'', create_device_info cfg),
        (''icon'', JStr ''mdi:clock-outline'')]"

definition uptime_sensor_topic :: "config \<Rightarrow> string \<Rightarrow> string" where
  "uptime_sensor_topic cfg container_name =
     HA_BASE_TOPIC cfg @ ''/sensor/'' @ topic_prefix cfg container_name @ ''_uptime/config''"

definition health_sensor_config :: "config \<Rightarrow> string \<Rightarrow> json" where
  "health_sensor_config cfg container_name =
     JObj
       [(''name'', JStr (container_name @ '' Health'')),
        (''unique_id'', JStr (topic_prefix cfg container_name @ ''_health'')),
        (''state_topic'', JStr (''docker/'' @ DEVICE_ID cfg @ ''/'' @ container_name @ ''/state'')),
        (''value_template'', JStr ''{{ value_json.health | default('N/A') }}''),
        (''device'', create_device_info cfg),
        (''icon'', JStr ''mdi:heart-pulse'')]"

definition health_sensor_topic :: "config \<Rightarrow> string \<Rightarrow> string" where
  "health_sensor_topic cfg container_name =
     HA_BASE_TOPIC cfg @ ''/sensor/'' @ topic_prefix cfg container_name @ ''_health/config''"

definition image_sensor_config :: "config \<Rightarrow> string \<Rightarrow> json" where
  "image_sensor_config cfg container_name =
     JObj
       [(''name'', JStr (container_name @ '' Image'')),
        (''unique_id'', JStr (topic_prefix cfg container_name @ ''_image'')),
        (''state_topic'', JStr (''docker/'' @ DEVICE_ID cfg @ ''/'' @ container_name @ ''/state'')),
        (''value_template'', JStr ''{{ value_json.image }}''),
        (''device'', create_device_info cfg),
        (''icon'', JStr ''mdi:package-variant'')]"

definition image_sensor_topic :: "config \<Rightarrow> string \<Rightarrow> string" where
  "image_sensor_topic cfg container_name =
     HA_BASE_TOPIC cfg @ ''/sensor/'' @ topic_prefix cfg container_name @ ''_image/config''"

definition image_version_config :: "config \<Rightarrow> string \<Rightarrow> json" where
  "image_version_config cfg container_name =
     JObj
       [(''name'', JStr (container_name @ '' Version'')),
        (''unique_id'', JStr (''docker_'' @ safe_name container_name @ ''_version'')),
        (''state_topic'', JStr (''docker/'' @ DEVICE_ID cfg @ ''/'' @ container_name @ ''/state'')),
        (''value_template'', JStr ''{{ value_json.image_version }}''),
        (''device'', create_device_info cfg),
        (''icon'', JStr ''mdi:tag'')]"

definition image_version_topic :: "config \<Rightarrow> string \<Rightarrow> string" where
  "image_version_topic cfg container_name =
     HA_BASE_TOPIC cfg @ ''/sensor/docker_'' @ safe_name container_name @ ''/version/config''"

definition sentrylab_version_config :: "config \<Rightarrow> json" where
  "sentrylab_version_config cfg =
     JObj
       [(''name'', JStr (DEVICE_NAME cfg @ '' SentryLab Version'')),
        (''unique_id'', JStr (''docker_'' @ DEVICE_ID cfg @ ''_sentrylab_version'')),
        (''state_topic'', JStr (''docker/'' @ DEVICE_ID cfg @ ''/summary'')),
        (''value_template'', JStr ''{{ value_json.sentrylab_version }}''),
        (''device'', create_device_info cfg),
        (''icon'', JStr ''mdi:information'')]"

definition sentrylab_version_topic :: "config \<Rightarrow> string" where
  "sentrylab_version_topic cfg =
     HA_BASE_TOPIC cfg @ ''/sensor/docker_'' @ DEVICE_ID cfg @ ''/sentrylab_version/config''"

definition sentrylab_version_message :: "config \<Rightarrow> message" where
  "sentrylab_version_message cfg =
     \<lparr>topic = sentrylab_version_topic cfg, payload = sentrylab_version_config cfg, retain = True\<rparr>"

definition publish_container_discovery ::
    "config \<Rightarrow> mqtt_client option \<Rightarrow> container \<Rightarrow> world \<Rightarrow> exn option \<times> world" where
  "publish_container_discovery cfg mqtt_client c w =
     (if mqtt_client = None \<and> DEBUG cfg then
        (None, logger LDebug (''DEBUG: Would publish discovery for '' @ name c) w)
      else
        (let container_name = name c in
         case discovery_image_info c of
           Inl e \<Rightarrow> (Some e, w)
         | Inr (image_name, image_tag) \<Rightarrow>
             (case client_publish mqtt_client
                     \<lparr>topic = binary_sensor_topic cfg container_name,
                      payload = binary_sensor_config cfg container_name, retain = True\<rparr> w of
                (Some e, w1) \<Rightarrow> (Some e, w1)
              | (None, w1) \<Rightarrow>
                  publish_all mqtt_client
                    [\<lparr>topic = state_sensor_topic cfg container_name,
                      payload = state_sensor_config cfg container_name, retain = True\<rparr>,
                     \<lparr>topic = uptime_sensor_topic cfg container_name,
                      payload = uptime_sensor_config cfg container_name, retain = True\<rparr>,
                     \<lparr>topic = health_sensor_topic cfg container_name,
                      payload = health_sensor_config cfg container_name, retain = True\<rparr>,
                     \<lparr>topic = image_sensor_topic cfg container_name,
                      payload = image_sensor_config cfg container_name, retain = True\<rparr>,
                     \<lparr>topic = image_version_topic cfg container_name,
                      payload = image_version_config cfg container_name, retain = True\<rparr>,
                     sentrylab_version_message cfg]
                    (logger LInfo (''Published discovery for '' @ container_name @ '' status'') w1))))"

text \<open>The four fleet-level descriptors.\<close>

definition total_config :: "config \<Rightarrow> json" where
  "total_config cfg =
     JObj
       [(''name'', JStr (DEVICE_NAME cfg @ '' Total Containers'')),
        (''unique_id'', JStr (''docker_'' @ DEVICE_ID cfg @ ''_total'')),
        (''state_topic'', JStr (''docker/'' @ DEVICE_ID cfg @ ''/summary'')),
        (''value_template'', JStr ''{{ value_json.total }}''),
        (''device'', create_device_info cfg),
        (''icon'', JStr ''mdi:counter'')]"

definition running_config :: "config \<Rightarrow> json" where
  "running_config cfg =
     JObj
       [(''name'', JStr (DEVICE_NAME cfg @ '' Running Containers'')),
        (''unique_id'', JStr (''docker_'' @ DEVICE_ID cfg @ ''_running'')),
        (''state_topic'', JStr (''docker/'' @ DEVICE_ID cfg @ ''/summary'')),
        (''value_template'', JStr ''{{ value_json.running }}''),
        (''device'', create_device_info cfg),
        (''icon'', JStr ''mdi:play-circle'')]"

definition stopped_config :: "config \<Rightarrow> json" where
  "stopped_config cfg =
     JObj
       [(''name'', JStr (DEVICE_NAME cfg @ '' Stopped Containers'')),
        (''unique_id'', JStr (''docker_'' @ DEVICE_ID cfg @ ''_stopped'')),
        (''state_topic'', JStr (''docker/'' @ DEVICE_ID cfg @ ''/summary'')),
        (''value_template'', JStr ''{{ value_json.stopped }}''),
        (''device'', create_device_info cfg),
        (''icon'', JStr ''mdi:stop-circle'')]"

definition summary_discovery_messages :: "config \<Rightarrow> message list" where
  "summary_discovery_messages cfg =
     [\<lparr>topic = HA_BASE_TOPIC cfg @ ''/sensor/docker_'' @ DEVICE_ID cfg @ ''/total/config'',
       payload = total_config cfg, retain = True\<rparr>,
      \<lparr>topic = HA_BASE_TOPIC cfg @ ''/sensor/docker_'' @ DEVICE_ID cfg @ ''/running/config'',
       payload = running_config cfg, retain = True\<rparr>,
      \<lparr>topic = HA_BASE_TOPIC cfg @ ''/sensor/docker_'' @ DEVICE_ID cfg @ ''/stopped/config'',
       payload = stopped_config cfg, retain = True\<rparr>,
      sentrylab_version_message cfg]"

definition publish_summary_discovery :: "config \<Rightarrow> mqtt_client option \<Rightarrow> world \<Rightarrow> exn option \<times> world" where
  "publish_summary_discovery cfg mqtt_client w =
     (if mqtt_client = None \<and> DEBUG cfg then
        (None, logger LDebug ''DEBUG: Would publish summary discovery'' w)
      else publish_all mqtt_client (summary_discovery_messages cfg) w)"

text \<open>
  \<open>setup_mqtt\<close> of discovery.py. What becomes of the publish client: building it
  (\<^verbatim>\<open>mqtt.Client()\<close> and the credentials, before the debug test and outside the
  \<^verbatim>\<open>try\<close>) raises, or connecting it raises, or it is connected.
\<close>

datatype broker = ClientError exn | ConnectError exn | Connected mqtt_client

definition setup_mqtt :: "config \<Rightarrow> broker \<Rightarrow> world \<Rightarrow> (exn + mqtt_client option) \<times> world" where
  "setup_mqtt cfg connect w =
     (case connect of
        ClientError e \<Rightarrow> (Inl e, w)
      | ConnectError e \<Rightarrow>
          (if DEBUG cfg then (Inr None, logger LInfo ''DEBUG mode: MQTT publishing disabled'' w)
           else (Inl e, logger LError (''Failed to connect to MQTT broker: '' @ str_exn e) w))
      | Connected client \<Rightarrow>
          (if DEBUG cfg then (Inr None, logger LInfo ''DEBUG mode: MQTT publishing disabled'' w)
           else (Inr (Some client), w)))"

text \<open>The \<^verbatim>\<open>for\<close> loop of \<open>main\<close>.\<close>

fun discovery_loop :: "config \<Rightarrow> mqtt_client option \<Rightarrow> container list \<Rightarrow> world \<Rightarrow> world" where
  "discovery_loop cfg mqtt_client [] w = w"
| "discovery_loop cfg mqtt_client (c # cs) w =
     (case publish_container_discovery cfg mqtt_client c w of
        (Some e, w') \<Rightarrow>
          discovery_loop cfg mqtt_client cs
            (logger LError (''Error publishing discovery for '' @ name c @ '': '' @ str_exn e) w')
      | (None, w') \<Rightarrow> discovery_loop cfg mqtt_client cs w')"

text \<open>What the discovery run observes of its collaborators: whether
  \<^verbatim>\<open>docker.from_env()\<close> raises, what becomes of the publish client, and the
  outcome of \<^verbatim>\<open>docker_client.containers.list(all=True)\<close>.\<close>

record runtime =
  from_env :: "exn option"
  connect :: broker
  listing :: "exn + container list"

definition fatal :: "exn \<Rightarrow> world \<Rightarrow> exn option \<times> world" where
  "fatal e w = (Some e, logger LError (''Fatal error: '' @ str_exn e) w)"

definition discovery_main :: "config \<Rightarrow> runtime \<Rightarrow> world \<Rightarrow> exn option \<times> world" where
  "discovery_main cfg rt w =
     (let w1 = logger LInfo ''SentryLab-Docker Discovery starting...'' w;
          w2 = logger LInfo (''Device: '' @ DEVICE_NAME cfg @ '' ('' @ DEVICE_ID cfg @ '')'') w1;
          w3 = (if DEBUG cfg then logger LInfo ''DEBUG mode enabled - no MQTT transmission'' w2 else w2)
      in case from_env rt of
           Some e \<Rightarrow> fatal e w3
         | None \<Rightarrow>
             (case setup_mqtt cfg (connect rt) (logger LInfo ''Connected to Docker daemon'' w3) of
                (Inl e, w4) \<Rightarrow> fatal e w4
              | (Inr mqtt_client, w4) \<Rightarrow>
                  (case listing rt of
                     Inl e \<Rightarrow> fatal e w4
                   | Inr containers \<Rightarrow>
                       (let w5 = logger LInfo (''Found '' @ str_nat (length containers) @ '' containers'') w4 in
                        case publish_summary_discovery cfg mqtt_client w5 of
                          (Some e, w6) \<Rightarrow> fatal e w6
                        | (None, w6) \<Rightarrow>
                            (None,
                             logger LInfo (''Discovery complete for '' @ str_nat (length containers) @ '' containers'')
                               (discovery_loop cfg mqtt_client containers w6))))))"

text \<open>Concrete collaborators for evaluation: a client that accepts every publish
  call, an empty world, and containers as the runtime reports them.\<close>

definition accepting_client :: mqtt_client where
  "accepting_client m = None"

definition empty_world :: world where
  "empty_world = \<lparr>published = [], log = []\<rparr>"

definition running_attrs :: attrs where
  "running_attrs =
     \<lparr>State = Some \<lparr>Running = Some True, Status = Some ''running'', Health = None,
                     StartedAt = Some ''1970-01-01T00:00:00Z'', Pid = Some 4242,
                     ExitCode = Some 0, Error = Some []\<rparr>,
      Config = Some \<lparr>Image = Some ''nginx:1.25''\<rparr>\<rparr>"

definition bare_attrs :: attrs where
  "bare_attrs =
     \<lparr>State = Some \<lparr>Running = None, Status = None, Health = None, StartedAt = None,
                     Pid = None, ExitCode = None, Error = None\<rparr>,
      Config = Some \<lparr>Image = Some ''redis''\<rparr>\<rparr>"

definition container_web :: container where
  "container_web =
     \<lparr>name = ''web'', status = ''running'', attrs = running_attrs,
      reload = Inr running_attrs, image_tags = Inr [''nginx:1.25'']\<rparr>"

definition container_db :: container where
  "container_db =
     \<lparr>name = ''db'', status = ''exited'', attrs = running_attrs,
      reload = Inl (LibraryError ''404 Client Error: Not Found''),
      image_tags = Inr [''postgres:16'']\<rparr>"

definition container_cache :: container where
  "container_cache =
     \<lparr>name = ''my-app.v2'', status = ''created'', attrs = bare_attrs,
      reload = Inr bare_attrs, image_tags = Inr []\<rparr>"

definition container_untagged :: container where
  "container_untagged =
     \<lparr>name = ''web'', status = ''running'', attrs = running_attrs,
      reload = Inr running_attrs, image_tags = Inl (LibraryError ''404 Client Error: No such image'')\<rparr>"

definition container_web_broken :: container where
  "container_web_broken =
     \<lparr>name = ''web'', status = ''running'', attrs = \<lparr>State = None, Config = None\<rparr>,
      reload = Inr running_attrs, image_tags = Inl (LibraryError ''404 Client Error: No such image'')\<rparr>"

definition example_clock :: "nat \<Rightarrow> clock_reading" where
  "example_clock i = \<lparr>now_utc = 303000000, utcnow_iso = ''1970-01-01T00:05:03''\<rparr>"

definition debug_config :: config where
  "debug_config = default_config\<lparr>DEBUG := True\<rparr>"

text \<open>Names for the messages of a poll cycle, used to state what a cycle publishes.\<close>

definition state_messages :: "parser \<Rightarrow> config \<Rightarrow> mqtt_client option \<Rightarrow> clock_reading \<Rightarrow> container \<Rightarrow> message list" where
  "state_messages fromisoformat cfg mqtt_client clk c =
     (case get_container_state fromisoformat clk c of
        (None, lg) \<Rightarrow> []
      | (Some st, lg) \<Rightarrow>
          (case mqtt_client of
             None \<Rightarrow> []
           | Some cl \<Rightarrow>
               (case cl \<lparr>topic = state_topic cfg (name c), payload = st, retain = True\<rparr> of
                  None \<Rightarrow> [\<lparr>topic = state_topic cfg (name c), payload = st, retain = True\<rparr>]
                | Some e \<Rightarrow> [])))"

definition summary_message :: "config \<Rightarrow> string \<Rightarrow> container list \<Rightarrow> message" where
  "summary_message cfg ts containers =
     \<lparr>topic = summary_topic cfg, payload = fleet_summary cfg ts containers, retain = True\<rparr>"

definition state_message :: "config \<Rightarrow> container \<Rightarrow> json \<Rightarrow> message" where
  "state_message cfg c st = \<lparr>topic = state_topic cfg (name c), payload = st, retain = True\<rparr>"

definition summary_messages :: "config \<Rightarrow> mqtt_client option \<Rightarrow> string \<Rightarrow> container list \<Rightarrow> message list" where
  "summary_messages cfg mqtt_client ts containers =
     (case mqtt_client of
        None \<Rightarrow> []
      | Some cl \<Rightarrow> (case cl (summary_message cfg ts containers) of None \<Rightarrow> [summary_message cfg ts containers] | Some e \<Rightarrow> []))"

definition summary_accepted :: "config \<Rightarrow> mqtt_client option \<Rightarrow> string \<Rightarrow> container list \<Rightarrow> bool" where
  "summary_accepted cfg mqtt_client ts containers =
     (case mqtt_client of None \<Rightarrow> True | Some cl \<Rightarrow> cl (summary_message cfg ts containers) = None)"

definition example_cycle :: world where
  "example_cycle =
     monitor_containers example_parser default_config (Some accepting_client) ''1970-01-01T00:05:03''
       example_clock (Inr [container_web, container_db, container_cache]) empty_world"

definition debug_cycle :: world where
  "debug_cycle =
     monitor_containers example_parser debug_config None ''1970-01-01T00:05:03''
       example_clock (Inr [container_web, container_db, container_cache]) empty_world"

text \<open>The seven descriptor messages of one container, in the order in which
  \<open>publish_container_discovery\<close> publishes them, and collaborators for evaluation.\<close>

definition container_discovery_messages :: "config \<Rightarrow> string \<Rightarrow> message list" where
  "container_discovery_messages cfg container_name =
     [\<lparr>topic = binary_sensor_topic cfg container_name,
       payload = binary_sensor_config cfg container_name, retain = True\<rparr>,
      \<lparr>topic = state_sensor_topic cfg container_name,
       payload = state_sensor_config cfg container_name, retain = True\<rparr>,
      \<lparr>topic = uptime_sensor_topic cfg container_name,
       payload = uptime_sensor_config cfg container_name, retain = True\<rparr>,
      \<lparr>topic = health_sensor_topic cfg container_name,
       payload = health_sensor_config cfg container_name, retain = True\<rparr>,
      \<lparr>topic = image_sensor_topic cfg container_name,
       payload = image_sensor_config cfg container_name, retain = True\<rparr>,
      \<lparr>topic = image_version_topic cfg container_name,
       payload = image_version_config cfg container_name, retain = True\<rparr>,
      sentrylab_version_message cfg]"

definition container_web_stopped :: container where
  "container_web_stopped =
     \<lparr>name = ''web'', status = ''exited'', attrs = bare_attrs,
      reload = Inl (LibraryError ''500 Server Error''), image_tags = Inr []\<rparr>"

definition example_runtime :: runtime where
  "example_runtime =
     \<lparr>from_env = None, connect = Connected accepting_client, listing = Inr [container_web, container_cache]\<rparr>"

definition single_runtime :: runtime where
  "single_runtime = \<lparr>from_env = None, connect = Connected accepting_client, listing = Inr [container_web]\<rparr>"

definition empty_runtime :: runtime where
  "empty_runtime = \<lparr>from_env = None, connect = Connected accepting_client, listing = Inr []\<rparr>"

section \<open>Facts about the helpers\<close>

lemma str_nat_digit: "n < 10 \<Longrightarrow> str_nat n = [''0123456789'' ! n]"
  by (simp add: str_nat.simps)

lemma str_nat_two: "10 \<le> n \<Longrightarrow> n < 100 \<Longrightarrow> str_nat n = [''0123456789'' ! (n div 10), ''0123456789'' ! (n mod 10)]"
  by (subst str_nat.simps) (simp add: str_nat_digit)

lemma td_days_secs: "td_days us = (us div 1000000) div 86400"
  unfolding td_days_def by (simp add: zdiv_zmult2_eq)

lemma td_seconds_secs: "td_seconds us = (us div 1000000) mod 86400"
proof -
  have "us mod (1000000 * 86400) = 1000000 * (us div 1000000 mod 86400) + us mod 1000000"
    by (rule zmod_zmult2_eq) simp
  then have "us mod 86400000000 = us mod 1000000 + (us div 1000000 mod 86400) * 1000000"
    by simp
  then show ?thesis unfolding td_seconds_def by simp
qed

lemma uptime_format_nonneg:
  assumes "0 \<le> secs"
  shows "uptime_format_spec secs =
         (if secs div 86400 > 0 then
            str_int (secs div 86400) @ ''d '' @ str_int (secs mod 86400 div 3600) @ ''h ''
              @ str_int (secs mod 86400 mod 3600 div 60) @ ''m''
          else if secs mod 86400 div 3600 > 0 then
            str_int (secs mod 86400 div 3600) @ ''h '' @ str_int (secs mod 86400 mod 3600 div 60) @ ''m''
          else str_int (secs mod 86400 mod 3600 div 60) @ ''m ''
              @ str_int (secs mod 86400 mod 3600 mod 60) @ ''s'')"
proof -
  have m1: "secs mod 86400 mod 3600 = secs mod 3600"
    by (rule mod_mod_cancel) simp
  have m2: "secs mod 3600 mod 60 = secs mod 60"
    by (rule mod_mod_cancel) simp
  show ?thesis
  proof (cases "secs \<ge> 86400")
    case True
    then have "secs div 86400 > 0" by simp
    with True show ?thesis by (simp add: uptime_format_spec_def m1)
  next
    case False
    with assms have d0: "secs div 86400 = 0" and md: "secs mod 86400 = secs" by simp_all
    show ?thesis
    proof (cases "secs \<ge> 3600")
      case True
      then have "secs div 3600 > 0" by simp
      with False True d0 md show ?thesis by (simp add: uptime_format_spec_def)
    next
      case F2: False
      with assms have h0: "secs div 3600 = 0" and mh: "secs mod 3600 = secs" by simp_all
      with False F2 d0 md show ?thesis by (simp add: uptime_format_spec_def)
    qed
  qed
qed

section \<open>Uptime derivation\<close>

text \<open>
  Claim C2, as amended. \<open>calculate_uptime\<close> is a total function: for every input string
  it returns a string. It returns "Not started" for the empty string and for the
  zero-time sentinel; "Unknown" when the parser raises and also when the parsed
  timestamp carries no UTC offset (the subtraction raises); and, when the parsed start
  time is not after the current time, the elapsed whole seconds formatted as the
  specification says: days, hours and minutes from one day on, hours and minutes from
  one hour on, minutes and seconds below. The format of a start time in the future is
  left open here.
\<close>

theorem calculate_uptime_cases:
  assumes "\<And>t. fromisoformat (replace_char CHR ''Z'' ''+00:00'' s) = Inr (Aware t) \<Longrightarrow> t \<le> now"
  shows "fst (calculate_uptime fromisoformat now s) =
    (if s = [] \<or> s = ''0001-01-01T00:00:00Z'' then ''Not started''
     else case fromisoformat (replace_char CHR ''Z'' ''+00:00'' s) of
            Inl e \<Rightarrow> ''Unknown''
          | Inr (Naive t) \<Rightarrow> ''Unknown''
          | Inr (Aware t) \<Rightarrow> uptime_format_spec ((now - t) div 1000000))"
proof (cases "s = [] \<or> s = ''0001-01-01T00:00:00Z''")
  case True
  then show ?thesis by (auto simp add: calculate_uptime_def)
next
  case False
  show ?thesis
  proof (cases "fromisoformat (replace_char CHR ''Z'' ''+00:00'' s)")
    case (Inl e)
    with False show ?thesis by (simp add: calculate_uptime_def)
  next
    case (Inr d)
    show ?thesis
    proof (cases d)
      case (Naive t)
      with False Inr show ?thesis by (simp add: calculate_uptime_def sub_datetime_def)
    next
      case (Aware t)
      with Inr assms have "0 \<le> (now - t) div 1000000" by simp
      then have fmt: "uptime_format_spec ((now - t) div 1000000) =
          fst (calculate_uptime fromisoformat now s)"
        using False Inr Aware
        by (simp only: uptime_format_nonneg calculate_uptime_def sub_datetime_def td_days_secs
              td_seconds_secs Let_def if_False sum.case datetime.case fst_conv if_distrib[of fst])
      from False Inr Aware show ?thesis
        by (simp add: fmt)
    qed
  qed
qed


theorem calculate_uptime_cases_witness:
  "fst (calculate_uptime example_parser 303000000 ''1970-01-01T00:00:00Z'') = ''5m 3s'' \<and>
   fst (calculate_uptime example_parser 7800000000 ''1970-01-01T00:00:00Z'') = ''2h 10m'' \<and>
   fst (calculate_uptime example_parser 86400000000 ''1970-01-01T00:00:00Z'') = ''1d 0h 0m'' \<and>
   fst (calculate_uptime example_parser 86400000000 []) = ''Not started'' \<and>
   fst (calculate_uptime example_parser 86400000000 ''0001-01-01T00:00:00Z'') = ''Not started'' \<and>
   fst (calculate_uptime example_parser 86400000000 ''yesterday'') = ''Unknown''"
proof -
  have p: "example_parser (replace_char CHR ''Z'' ''+00:00'' ''1970-01-01T00:00:00Z'') = Inr (Aware 0)"
    by (simp add: example_parser_def replace_char_def)
  have q: "example_parser (replace_char CHR ''Z'' ''+00:00'' ''yesterday'') = Inl (ValueError (''Invalid isoformat string: '' @ [CHR 0x27] @ ''yesterday'' @ [CHR 0x27]))"
    by (simp add: example_parser_def replace_char_def)
  have "fst (calculate_uptime example_parser 303000000 ''1970-01-01T00:00:00Z'') = uptime_format_spec 303"
    using calculate_uptime_cases [of example_parser "''1970-01-01T00:00:00Z''" 303000000] by (simp add: p)
  moreover have "fst (calculate_uptime example_parser 7800000000 ''1970-01-01T00:00:00Z'') = uptime_format_spec 7800"
    using calculate_uptime_cases [of example_parser "''1970-01-01T00:00:00Z''" 7800000000] by (simp add: p)
  moreover have "fst (calculate_uptime example_parser 86400000000 ''1970-01-01T00:00:00Z'') = uptime_format_spec 86400"
    using calculate_uptime_cases [of example_parser "''1970-01-01T00:00:00Z''" 86400000000] by (simp add: p)
  moreover have "fst (calculate_uptime example_parser 86400000000 []) = ''Not started''"
    using calculate_uptime_cases [of example_parser "[]" 86400000000] by (simp add: example_parser_def replace_char_def)
  moreover have "fst (calculate_uptime example_parser 86400000000 ''0001-01-01T00:00:00Z'') = ''Not started''"
    using calculate_uptime_cases [of example_parser "''0001-01-01T00:00:00Z''" 86400000000]
    by (simp add: example_parser_def replace_char_def)
  moreover have "fst (calculate_uptime example_parser 86400000000 ''yesterday'') = ''Unknown''"
    using calculate_uptime_cases [of example_parser "''yesterday''" 86400000000] by (simp add: q)
  moreover have "uptime_format_spec 303 = ''5m 3s''"
    by (simp add: uptime_format_spec_def str_int_def str_nat_digit)
  moreover have "uptime_format_spec 7800 = ''2h 10m''"
    by (simp add: uptime_format_spec_def str_int_def str_nat_digit str_nat_two)
  moreover have "uptime_format_spec 86400 = ''1d 0h 0m''"
    by (simp add: uptime_format_spec_def str_int_def str_nat_digit)
  ultimately show ?thesis by simp
qed


text \<open>
  Claim C2 as stated fails for a start time one second after the current time: the
  elapsed duration is \<open>-1\<close> second, which is less than one hour, so the claim asks for
  the minutes-and-seconds format; the normalised \<^verbatim>\<open>timedelta\<close> has \<open>days = -1\<close> and
  \<open>seconds = 86399\<close>, and the function returns "23h 59m".
\<close>

theorem calculate_uptime_future_counterexample:
  "example_parser (replace_char CHR ''Z'' ''+00:00'' ''1970-01-01T00:00:01Z'') = Inr (Aware 1000000) \<and>
   (0 - 1000000) div 1000000 = (- 1 :: int) \<and>
   fst (calculate_uptime example_parser 0 ''1970-01-01T00:00:01Z'') = ''23h 59m'' \<and>
   uptime_format_spec (- 1) = ''-1m 59s''"
  by (simp add: calculate_uptime_def example_parser_def replace_char_def sub_datetime_def td_days_def td_seconds_def
     uptime_format_spec_def str_int_def str_nat_digit str_nat_two Let_def)

section \<open>The poll cycle of monitor.py\<close>

lemma published_logger [simp]: "published (logger lv msg w) = published w"
  by (simp add: logger_def)

lemma published_log_all [simp]: "published (log_all ls w) = published w"
  by (simp add: log_all_def)

lemma log_logger [simp]: "log (logger lv msg w) = log w @ [(lv, msg)]"
  by (simp add: logger_def)

lemma log_log_all [simp]: "log (log_all ls w) = log w @ ls"
  by (simp add: log_all_def)

lemma client_publish_Some:
  "client_publish (Some cl) m w =
     (case cl m of Some e \<Rightarrow> (Some e, w) | None \<Rightarrow> (None, w\<lparr>published := published w @ [m]\<rparr>))"
  by (simp add: client_publish_def)

lemma publish_container_state_published:
  "published (snd (publish_container_state fromisoformat cfg mqtt_client clk c w)) =
     published w @ state_messages fromisoformat cfg mqtt_client clk c"
  by (simp add: publish_container_state_def state_messages_def client_publish_Some Let_def
        split: prod.splits option.splits)

lemma monitor_loop_published:
  "published (monitor_loop fromisoformat cfg mqtt_client clock i cs w) =
     published w @ concat (map (\<lambda>(k, c). state_messages fromisoformat cfg mqtt_client (clock k) c)
                              (zip [i..<i + length cs] cs))"
proof (induction cs arbitrary: i w)
  case Nil
  then show ?case by simp
next
  case (Cons c cs)
  have "[i..<i + length (c # cs)] = i # [Suc i..<Suc i + length cs]"
    by (subst upt_rec) simp
  then have z: "zip [i..<i + length (c # cs)] (c # cs) = (i, c) # zip [Suc i..<Suc i + length cs] cs"
    by (simp only: zip_Cons_Cons)
  obtain r w' where pc: "publish_container_state fromisoformat cfg mqtt_client (clock i) c w = (r, w')"
    by (cases "publish_container_state fromisoformat cfg mqtt_client (clock i) c w")
  then have pw: "published w' = published w @ state_messages fromisoformat cfg mqtt_client (clock i) c"
    using publish_container_state_published [of fromisoformat cfg mqtt_client "clock i" c w] by simp
  show ?case
    unfolding z using pc pw Cons.IH by (cases r) simp_all
qed

lemma log_publish_container_state_mono:
  "set (log w) \<subseteq> set (log (snd (publish_container_state fromisoformat cfg mqtt_client clk c w)))"
  by (auto simp add: publish_container_state_def client_publish_Some Let_def
        split: prod.splits option.splits)

lemma log_monitor_loop_mono:
  "set (log w) \<subseteq> set (log (monitor_loop fromisoformat cfg mqtt_client clock i cs w))"
proof (induction cs arbitrary: i w)
  case Nil
  then show ?case by simp
next
  case (Cons c cs)
  obtain r w' where pc: "publish_container_state fromisoformat cfg mqtt_client (clock i) c w = (r, w')"
    by (cases "publish_container_state fromisoformat cfg mqtt_client (clock i) c w")
  then have "set (log w) \<subseteq> set (log w')"
    using log_publish_container_state_mono [of w fromisoformat cfg mqtt_client "clock i" c] by simp
  moreover have "set (log w') \<subseteq> set (log (monitor_loop fromisoformat cfg mqtt_client clock (Suc i) cs w'))"
    by (rule Cons.IH)
  moreover have "set (log (logger LError x w')) \<subseteq> set (log (monitor_loop fromisoformat cfg mqtt_client clock (Suc i) cs (logger LError x w')))" for x
    by (rule Cons.IH)
  ultimately show ?case using pc by (cases r) auto
qed

lemma publish_summary_result:
  "fst (publish_summary cfg mqtt_client ts containers w) =
     (case mqtt_client of None \<Rightarrow> None | Some cl \<Rightarrow> cl (summary_message cfg ts containers))"
  by (simp add: publish_summary_def summary_message_def client_publish_Some Let_def
        split: option.splits)

lemma publish_summary_published:
  "published (snd (publish_summary cfg mqtt_client ts containers w)) =
     published w @ summary_messages cfg mqtt_client ts containers"
  by (simp add: publish_summary_def summary_messages_def summary_message_def client_publish_Some Let_def
        split: option.splits)

lemma state_messages_None [simp]: "state_messages fromisoformat cfg None clk c = []"
  by (simp add: state_messages_def split: prod.splits option.splits)

lemma monitor_containers_published:
  "published (monitor_containers fromisoformat cfg mqtt_client ts clock (Inr cs) w) =
     published w @
       (case mqtt_client of
          None \<Rightarrow> []
        | Some cl \<Rightarrow>
            (case cl (summary_message cfg ts cs) of
               Some e \<Rightarrow> []
             | None \<Rightarrow> summary_message cfg ts cs #
                 concat (map (\<lambda>(k, c). state_messages fromisoformat cfg mqtt_client (clock k) c)
                          (zip [0..<length cs] cs))))"
proof -
  let ?w1 = "logger LInfo (''Monitoring '' @ str_nat (length cs) @ '' containers...'') w"
  obtain r w2 where ps: "publish_summary cfg mqtt_client ts cs ?w1 = (r, w2)"
    by (cases "publish_summary cfg mqtt_client ts cs ?w1")
  have r: "r = (case mqtt_client of None \<Rightarrow> None | Some cl \<Rightarrow> cl (summary_message cfg ts cs))"
    using publish_summary_result [of cfg mqtt_client ts cs ?w1] ps by simp
  have p2: "published w2 = published w @ summary_messages cfg mqtt_client ts cs"
    using publish_summary_published [of cfg mqtt_client ts cs ?w1] ps by simp
  show ?thesis
  proof (cases mqtt_client)
    case None
    with r p2 ps show ?thesis
      by (simp add: monitor_containers_def monitor_loop_published summary_messages_def
            del: monitor_loop.simps)
  next
    case (Some cl)
    show ?thesis
    proof (cases "cl (summary_message cfg ts cs)")
      case None
      with Some r p2 ps show ?thesis
        by (simp add: monitor_containers_def monitor_loop_published summary_messages_def
              del: monitor_loop.simps)
    next
      case (Some e)
      with \<open>mqtt_client = Some cl\<close> r p2 ps show ?thesis
        by (simp add: monitor_containers_def summary_messages_def)
    qed
  qed
qed

lemma monitor_containers_failed_listing:
  "published (monitor_containers fromisoformat cfg mqtt_client ts clock (Inl e) w) = published w"
  by (simp add: monitor_containers_def)

lemma state_topic_not_summary: "state_topic cfg n \<noteq> summary_topic cfg"
proof
  assume "state_topic cfg n = summary_topic cfg"
  then have "n @ ''/state'' = ''summary''"
    by (simp add: state_topic_def summary_topic_def)
  then have "last (n @ ''/state'') = last ''summary''" by (rule arg_cong)
  then show False by simp
qed

lemma state_messages_cases:
  assumes "m \<in> set (state_messages fromisoformat cfg mqtt_client clk c)"
  shows "\<exists>st. fst (get_container_state fromisoformat clk c) = Some st \<and> m = state_message cfg c st"
proof -
  obtain r lg where g: "get_container_state fromisoformat clk c = (r, lg)"
    by (cases "get_container_state fromisoformat clk c")
  with assms show ?thesis
    by (cases r; cases mqtt_client)
       (auto simp add: state_messages_def state_message_def split: option.splits)
qed

lemma in_concat_zip:
  assumes "m \<in> set (concat (map (\<lambda>(k, c). f k c) (zip [0..<length cs] cs)))"
  shows "\<exists>j<length cs. m \<in> set (f j (cs ! j))"
proof -
  from assms obtain k c where kc: "(k, c) \<in> set (zip [0..<length cs] cs)" and m: "m \<in> set (f k c)"
    by auto
  from kc obtain i where "i < length cs" "[0..<length cs] ! i = k" "cs ! i = c"
    by (auto simp add: set_zip)
  then have "k < length cs" "cs ! k = c" by auto
  with m show ?thesis by blast
qed

lemma concat_zip_in:
  assumes "j < length cs" "m \<in> set (f j (cs ! j))"
  shows "m \<in> set (concat (map (\<lambda>(k, c). f k c) (zip [0..<length cs] cs)))"
proof -
  have "(j, cs ! j) \<in> set (zip [0..<length cs] cs)"
    using assms(1) by (auto simp add: set_zip intro!: exI[of _ j])
  with assms(2) show ?thesis by auto
qed

lemma get_container_state_failed:
  assumes "fst (container_state fromisoformat clk c) = Inl e"
  shows "fst (get_container_state fromisoformat clk c) = None"
    and "(LError, ''Error getting state for '' @ name c @ '': '' @ str_exn e)
           \<in> set (snd (get_container_state fromisoformat clk c))"
  using assms
  by (cases "container_state fromisoformat clk c"; simp add: get_container_state_def)+

lemma publish_container_state_failed_log:
  assumes "fst (container_state fromisoformat clk c) = Inl e"
  shows "(LError, ''Error getting state for '' @ name c @ '': '' @ str_exn e)
           \<in> set (log (snd (publish_container_state fromisoformat cfg mqtt_client clk c w)))"
proof -
  obtain r lg where g: "get_container_state fromisoformat clk c = (r, lg)"
    by (cases "get_container_state fromisoformat clk c")
  with get_container_state_failed [OF assms] have "r = None"
    and "(LError, ''Error getting state for '' @ name c @ '': '' @ str_exn e) \<in> set lg"
    by simp_all
  with g show ?thesis by (simp add: publish_container_state_def)
qed

lemma monitor_loop_failed_log:
  assumes "k < length cs"
      and "fst (container_state fromisoformat (clock (i + k)) (cs ! k)) = Inl e"
  shows "(LError, ''Error getting state for '' @ name (cs ! k) @ '': '' @ str_exn e)
           \<in> set (log (monitor_loop fromisoformat cfg mqtt_client clock i cs w))"
  using assms
proof (induction cs arbitrary: i k w)
  case Nil
  then show ?case by simp
next
  case (Cons c cs)
  obtain r w' where pc: "publish_container_state fromisoformat cfg mqtt_client (clock i) c w = (r, w')"
    by (cases "publish_container_state fromisoformat cfg mqtt_client (clock i) c w")
  let ?next = "case r of None \<Rightarrow> w' | Some x \<Rightarrow> logger LError (''Error monitoring '' @ name c @ '': '' @ str_exn x) w'"
  have step: "monitor_loop fromisoformat cfg mqtt_client clock i (c # cs) w =
                monitor_loop fromisoformat cfg mqtt_client clock (Suc i) cs ?next"
    using pc by (cases r) simp_all
  show ?case
  proof (cases k)
    case 0
    with Cons.prems have "fst (container_state fromisoformat (clock i) c) = Inl e" by simp
    from publish_container_state_failed_log [OF this, of cfg mqtt_client w] pc
    have "(LError, ''Error getting state for '' @ name c @ '': '' @ str_exn e) \<in> set (log w')"
      by simp
    then have "(LError, ''Error getting state for '' @ name c @ '': '' @ str_exn e) \<in> set (log ?next)"
      by (cases r) simp_all
    with log_monitor_loop_mono [of ?next fromisoformat cfg mqtt_client clock "Suc i" cs] 0
    show ?thesis unfolding step by auto
  next
    case (Suc k')
    with Cons.prems have "k' < length cs"
      and "fst (container_state fromisoformat (clock (Suc i + k')) (cs ! k')) = Inl e"
      by simp_all
    from Cons.IH [OF this] Suc show ?thesis unfolding step by simp
  qed
qed

lemma monitor_containers_log:
  assumes "fst (publish_summary cfg mqtt_client ts cs
                  (logger LInfo (''Monitoring '' @ str_nat (length cs) @ '' containers...'') w)) = None"
  shows "set (log (monitor_loop fromisoformat cfg mqtt_client clock 0 cs
                     (snd (publish_summary cfg mqtt_client ts cs
                        (logger LInfo (''Monitoring '' @ str_nat (length cs) @ '' containers...'') w)))))
           \<subseteq> set (log (monitor_containers fromisoformat cfg mqtt_client ts clock (Inr cs) w))"
proof -
  let ?w1 = "logger LInfo (''Monitoring '' @ str_nat (length cs) @ '' containers...'') w"
  obtain r w2 where ps: "publish_summary cfg mqtt_client ts cs ?w1 = (r, w2)"
    by (cases "publish_summary cfg mqtt_client ts cs ?w1")
  with assms have "r = None" by simp
  with ps show ?thesis
    by (auto simp add: monitor_containers_def simp del: monitor_loop.simps)
qed

lemma example_cycle_topics:
  "map topic (published example_cycle) =
     [''docker/docker_host/summary'', ''docker/docker_host/web/state'',
      ''docker/docker_host/my-app.v2/state'']"
  by code_simp

lemma example_cycle_split:
  "published (monitor_containers example_parser default_config (Some accepting_client)
      ''1970-01-01T00:05:03'' example_clock (Inr [container_web, container_db, container_cache]) empty_world)
     = published empty_world @ published example_cycle"
  by (simp add: example_cycle_def empty_world_def)

text \<open>
  Claim C1. In every poll cycle, a fleet summary that is published (a message of the
  cycle on the topic \<^verbatim>\<open>docker/<DEVICE_ID>/summary\<close>) carries \<open>total\<close>, the number of
  enumerated containers, \<open>running\<close>, the number of those whose status is "running", and
  \<open>stopped = total - running\<close>.
\<close>

theorem fleet_summary_stopped:
  assumes "published (monitor_containers fromisoformat cfg mqtt_client ts clock (Inr containers) w)
             = published w @ ms"
      and "m \<in> set ms"
      and "topic m = ''docker/'' @ DEVICE_ID cfg @ ''/summary''"
  shows "\<exists>total running stopped.
           dict_get (payload m) ''total'' = Some (JInt total) \<and>
           dict_get (payload m) ''running'' = Some (JInt running) \<and>
           dict_get (payload m) ''stopped'' = Some (JInt stopped) \<and>
           total = int (length containers) \<and>
           running = int (length (filter (\<lambda>c. status c = ''running'') containers)) \<and>
           stopped = total - running"
proof -
  have tm: "topic m = summary_topic cfg"
    using assms(3) by (simp add: summary_topic_def)
  have "payload m = fleet_summary cfg ts containers"
  proof (cases mqtt_client)
    case None
    with assms(1,2) monitor_containers_published [of fromisoformat cfg mqtt_client ts clock containers w]
    show ?thesis by simp
  next
    case (Some cl)
    show ?thesis
    proof (cases "cl (summary_message cfg ts containers)")
      case (Some e)
      with \<open>mqtt_client = Some cl\<close> assms(1,2)
        monitor_containers_published [of fromisoformat cfg mqtt_client ts clock containers w]
      show ?thesis by simp
    next
      case None
      with \<open>mqtt_client = Some cl\<close> assms(1)
        monitor_containers_published [of fromisoformat cfg mqtt_client ts clock containers w]
      have ms: "ms = summary_message cfg ts containers #
                  concat (map (\<lambda>(k, c). state_messages fromisoformat cfg mqtt_client (clock k) c)
                           (zip [0..<length containers] containers))"
        by simp
      show ?thesis
      proof (cases "m = summary_message cfg ts containers")
        case True
        then show ?thesis by (simp add: summary_message_def)
      next
        case False
        with ms assms(2) have "m \<in> set (concat (map (\<lambda>(k, c). state_messages fromisoformat cfg mqtt_client (clock k) c)
                           (zip [0..<length containers] containers)))" by simp
        from in_concat_zip [OF this] obtain j where
          "m \<in> set (state_messages fromisoformat cfg mqtt_client (clock j) (containers ! j))" by blast
        from state_messages_cases [OF this] obtain st where "m = state_message cfg (containers ! j) st"
          by blast
        then have "topic m = state_topic cfg (name (containers ! j))"
          by (simp add: state_message_def)
        with tm state_topic_not_summary show ?thesis by simp
      qed
    qed
  qed
  then show ?thesis by (simp add: fleet_summary_def Let_def)
qed

theorem fleet_summary_stopped_witness:
  "dict_get (payload (hd (published example_cycle))) ''total'' = Some (JInt 3) \<and>
   dict_get (payload (hd (published example_cycle))) ''running'' = Some (JInt 1) \<and>
   dict_get (payload (hd (published example_cycle))) ''stopped'' = Some (JInt 2)"
proof -
  have m: "hd (published example_cycle) \<in> set (published example_cycle)"
    by code_simp
  have t: "topic (hd (published example_cycle)) = ''docker/'' @ DEVICE_ID default_config @ ''/summary''"
    by code_simp
  from fleet_summary_stopped [OF example_cycle_split m t]
  obtain total running stopped where
    "dict_get (payload (hd (published example_cycle))) ''total'' = Some (JInt total)"
    "dict_get (payload (hd (published example_cycle))) ''running'' = Some (JInt running)"
    "dict_get (payload (hd (published example_cycle))) ''stopped'' = Some (JInt stopped)"
    "total = int (length [container_web, container_db, container_cache])"
    "running = int (length (filter (\<lambda>c. status c = ''running'') [container_web, container_db, container_cache]))"
    "stopped = total - running"
    by blast
  moreover have "int (length (filter (\<lambda>c. status c = ''running'') [container_web, container_db, container_cache])) = 1"
    by (simp add: container_web_def container_db_def container_cache_def)
  ultimately show ?thesis by simp
qed

text \<open>
  Claim C8. Let \<open>ms\<close> be the messages published during one poll cycle, in order. Every
  per-container state message among them (a message on a topic
  \<^verbatim>\<open>docker/<DEVICE_ID>/<name>/state\<close>) stands at a position after the first, and the
  first message of the cycle is the one on \<^verbatim>\<open>docker/<DEVICE_ID>/summary\<close>: no state
  message precedes the summary of its cycle.
\<close>

theorem summary_before_states:
  assumes "published (monitor_containers fromisoformat cfg mqtt_client ts clock enumeration w)
             = published w @ ms"
      and "i < length ms"
      and "topic (ms ! i) = ''docker/'' @ DEVICE_ID cfg @ ''/'' @ n @ ''/state''"
  shows "0 < i \<and> topic (ms ! 0) = ''docker/'' @ DEVICE_ID cfg @ ''/summary''"
proof (cases enumeration)
  case (Inl e)
  with assms(1,2) monitor_containers_failed_listing [of fromisoformat cfg mqtt_client ts clock e w]
  show ?thesis by simp
next
  case (Inr cs)
  note pub = monitor_containers_published [of fromisoformat cfg mqtt_client ts clock cs w]
  show ?thesis
  proof (cases mqtt_client)
    case None
    with Inr assms(1,2) pub show ?thesis by simp
  next
    case (Some cl)
    show ?thesis
    proof (cases "cl (summary_message cfg ts cs)")
      case (Some e)
      with \<open>mqtt_client = Some cl\<close> Inr assms(1,2) pub show ?thesis by simp
    next
      case None
      with \<open>mqtt_client = Some cl\<close> Inr assms(1) pub
      obtain rest where ms: "ms = summary_message cfg ts cs # rest" by simp
      have "i \<noteq> 0"
      proof
        assume "i = 0"
        with ms assms(3) have "summary_topic cfg = state_topic cfg n"
          by (simp add: summary_message_def state_topic_def)
        with state_topic_not_summary [of cfg n] show False by simp
      qed
      with ms show ?thesis by (simp add: summary_message_def summary_topic_def)
    qed
  qed
qed

theorem summary_before_states_witness:
  "topic (published example_cycle ! 1) = ''docker/docker_host/web/state'' \<and>
   (0::nat) < 1 \<and>
   topic (published example_cycle ! 0) = ''docker/docker_host/summary''"
proof -
  have l: "1 < length (published example_cycle)"
    by code_simp
  have t: "topic (published example_cycle ! 1) = ''docker/'' @ DEVICE_ID default_config @ ''/'' @ ''web'' @ ''/state''"
    by code_simp
  from summary_before_states [OF example_cycle_split l t] t
  show ?thesis by (simp add: default_config_def)
qed

lemma publish_container_state_debug_log:
  assumes "fst (get_container_state fromisoformat clk c) = Some st" and "DEBUG cfg"
  shows "(LDebug, ''DEBUG: Would publish to '' @ state_topic cfg (name c) @ '': '' @ state_text st)
           \<in> set (log (snd (publish_container_state fromisoformat cfg None clk c w)))"
proof -
  obtain r lg where g: "get_container_state fromisoformat clk c = (r, lg)"
    by (cases "get_container_state fromisoformat clk c")
  with assms(1) have "r = Some st" by simp
  with g assms(2) show ?thesis by (simp add: publish_container_state_def Let_def)
qed

lemma publish_container_state_None_result:
  "fst (publish_container_state fromisoformat cfg None clk c w) = None"
  by (simp add: publish_container_state_def Let_def split: prod.splits option.splits)

lemma monitor_loop_debug_log:
  assumes "j < length cs"
      and "fst (get_container_state fromisoformat (clock (i + j)) (cs ! j)) = Some st"
      and "DEBUG cfg"
  shows "(LDebug, ''DEBUG: Would publish to '' @ state_topic cfg (name (cs ! j)) @ '': '' @ state_text st)
           \<in> set (log (monitor_loop fromisoformat cfg None clock i cs w))"
  using assms(1,2)
proof (induction cs arbitrary: i j w)
  case Nil
  then show ?case by simp
next
  case (Cons c cs)
  obtain r w' where pc: "publish_container_state fromisoformat cfg None (clock i) c w = (r, w')"
    by (cases "publish_container_state fromisoformat cfg None (clock i) c w")
  with publish_container_state_None_result [of fromisoformat cfg "clock i" c w] have r: "r = None"
    by simp
  have step: "monitor_loop fromisoformat cfg None clock i (c # cs) w =
                monitor_loop fromisoformat cfg None clock (Suc i) cs w'"
    using pc r by simp
  show ?case
  proof (cases j)
    case 0
    with Cons.prems have "fst (get_container_state fromisoformat (clock i) c) = Some st" by simp
    from publish_container_state_debug_log [OF this assms(3), of w] pc
    have "(LDebug, ''DEBUG: Would publish to '' @ state_topic cfg (name c) @ '': '' @ state_text st)
            \<in> set (log w')" by simp
    with log_monitor_loop_mono [of w' fromisoformat cfg None clock "Suc i" cs] 0
    show ?thesis unfolding step by auto
  next
    case (Suc j')
    with Cons.prems have "j' < length cs"
      and "fst (get_container_state fromisoformat (clock (Suc i + j')) (cs ! j')) = Some st"
      by simp_all
    from Cons.IH [OF this] Suc show ?thesis unfolding step by simp
  qed
qed

text \<open>
  Claim C6, as amended. In a poll cycle that reaches the loop over the containers, let
  the attribute refresh or the state computation of the container at position \<open>k\<close> raise
  \<open>e\<close>. Then no state is returned for it, the error is logged, every state message
  published in the cycle is the complete state of a container whose state computation
  succeeded (so nothing is published for the failing one), and every other container,
  before or after it, whose state computation succeeds is still processed: with a
  connected client that accepts the publish call its state message is published, and in
  debug mode (no client) the line that says what would be published is logged for it
  and the cycle publishes nothing.
\<close>

theorem container_failure_isolated:
  assumes "summary_accepted cfg mqtt_client ts cs"
      and "k < length cs"
      and "fst (container_state fromisoformat (clock k) (cs ! k)) = Inl e"
  shows "fst (get_container_state fromisoformat (clock k) (cs ! k)) = None \<and>
         (LError, ''Error getting state for '' @ name (cs ! k) @ '': '' @ str_exn e)
           \<in> set (log (monitor_containers fromisoformat cfg mqtt_client ts clock (Inr cs) w)) \<and>
         (\<exists>ms. published (monitor_containers fromisoformat cfg mqtt_client ts clock (Inr cs) w)
                  = published w @ summary_messages cfg mqtt_client ts cs @ ms \<and>
               (\<forall>m \<in> set ms. \<exists>j<length cs. \<exists>st.
                    fst (get_container_state fromisoformat (clock j) (cs ! j)) = Some st \<and>
                    m = state_message cfg (cs ! j) st) \<and>
               (\<forall>j<length cs. \<forall>st cl.
                    mqtt_client = Some cl \<longrightarrow>
                    fst (get_container_state fromisoformat (clock j) (cs ! j)) = Some st \<longrightarrow>
                    cl (state_message cfg (cs ! j) st) = None \<longrightarrow>
                    state_message cfg (cs ! j) st \<in> set ms)) \<and>
         (mqtt_client = None \<longrightarrow> DEBUG cfg \<longrightarrow>
            published (monitor_containers fromisoformat cfg mqtt_client ts clock (Inr cs) w) = published w \<and>
            (\<forall>j<length cs. \<forall>st.
                 fst (get_container_state fromisoformat (clock j) (cs ! j)) = Some st \<longrightarrow>
                 (LDebug, ''DEBUG: Would publish to '' @ state_topic cfg (name (cs ! j)) @ '': ''
                            @ state_text st)
                   \<in> set (log (monitor_containers fromisoformat cfg mqtt_client ts clock (Inr cs) w))))"
proof -
  let ?w1 = "logger LInfo (''Monitoring '' @ str_nat (length cs) @ '' containers...'') w"
  let ?ms = "concat (map (\<lambda>(k, c). state_messages fromisoformat cfg mqtt_client (clock k) c)
                      (zip [0..<length cs] cs))"
  have ok: "fst (publish_summary cfg mqtt_client ts cs ?w1) = None"
    using assms(1) by (simp add: publish_summary_result summary_accepted_def split: option.splits)
  have a: "fst (get_container_state fromisoformat (clock k) (cs ! k)) = None"
    using get_container_state_failed(1) [OF assms(3)] .
  have "(LError, ''Error getting state for '' @ name (cs ! k) @ '': '' @ str_exn e)
          \<in> set (log (monitor_loop fromisoformat cfg mqtt_client clock 0 cs
                         (snd (publish_summary cfg mqtt_client ts cs ?w1))))"
    using monitor_loop_failed_log [of k cs fromisoformat clock 0 e] assms(2,3) by simp
  with monitor_containers_log [OF ok, of fromisoformat clock]
  have b: "(LError, ''Error getting state for '' @ name (cs ! k) @ '': '' @ str_exn e)
          \<in> set (log (monitor_containers fromisoformat cfg mqtt_client ts clock (Inr cs) w))"
    by blast
  have c: "published (monitor_containers fromisoformat cfg mqtt_client ts clock (Inr cs) w)
             = published w @ summary_messages cfg mqtt_client ts cs @ ?ms"
    using assms(1) monitor_containers_published [of fromisoformat cfg mqtt_client ts clock cs w]
    by (cases mqtt_client) (simp_all add: summary_accepted_def summary_messages_def)
  have d: "\<forall>m \<in> set ?ms. \<exists>j<length cs. \<exists>st.
             fst (get_container_state fromisoformat (clock j) (cs ! j)) = Some st \<and>
             m = state_message cfg (cs ! j) st"
  proof
    fix m assume "m \<in> set ?ms"
    from in_concat_zip [OF this] obtain j where j: "j < length cs"
      and "m \<in> set (state_messages fromisoformat cfg mqtt_client (clock j) (cs ! j))" by blast
    from state_messages_cases [OF this(2)] j
    show "\<exists>j<length cs. \<exists>st. fst (get_container_state fromisoformat (clock j) (cs ! j)) = Some st \<and>
             m = state_message cfg (cs ! j) st" by blast
  qed
  have e: "\<forall>j<length cs. \<forall>st cl.
             mqtt_client = Some cl \<longrightarrow>
             fst (get_container_state fromisoformat (clock j) (cs ! j)) = Some st \<longrightarrow>
             cl (state_message cfg (cs ! j) st) = None \<longrightarrow>
             state_message cfg (cs ! j) st \<in> set ?ms"
  proof (intro allI impI)
    fix j st cl
    assume j: "j < length cs" and cl: "mqtt_client = Some cl"
      and st: "fst (get_container_state fromisoformat (clock j) (cs ! j)) = Some st"
      and acc: "cl (state_message cfg (cs ! j) st) = None"
    obtain r lg where g: "get_container_state fromisoformat (clock j) (cs ! j) = (r, lg)"
      by (cases "get_container_state fromisoformat (clock j) (cs ! j)")
    with st cl acc
    have "state_message cfg (cs ! j) st
            \<in> set (state_messages fromisoformat cfg mqtt_client (clock j) (cs ! j))"
      by (simp add: state_messages_def state_message_def)
    from concat_zip_in [of j cs _ "\<lambda>k c. state_messages fromisoformat cfg mqtt_client (clock k) c", OF j this]
    show "state_message cfg (cs ! j) st \<in> set ?ms" .
  qed
  have f: "mqtt_client = None \<longrightarrow> DEBUG cfg \<longrightarrow>
            published (monitor_containers fromisoformat cfg mqtt_client ts clock (Inr cs) w) = published w \<and>
            (\<forall>j<length cs. \<forall>st.
                 fst (get_container_state fromisoformat (clock j) (cs ! j)) = Some st \<longrightarrow>
                 (LDebug, ''DEBUG: Would publish to '' @ state_topic cfg (name (cs ! j)) @ '': ''
                            @ state_text st)
                   \<in> set (log (monitor_containers fromisoformat cfg mqtt_client ts clock (Inr cs) w)))"
  proof (intro impI conjI allI)
    assume n: "mqtt_client = None" and dbg: "DEBUG cfg"
    from n monitor_containers_published [of fromisoformat cfg mqtt_client ts clock cs w]
    show "published (monitor_containers fromisoformat cfg mqtt_client ts clock (Inr cs) w) = published w"
      by simp
    fix j st
    assume j: "j < length cs"
      and st: "fst (get_container_state fromisoformat (clock j) (cs ! j)) = Some st"
    have "(LDebug, ''DEBUG: Would publish to '' @ state_topic cfg (name (cs ! j)) @ '': '' @ state_text st)
            \<in> set (log (monitor_loop fromisoformat cfg None clock 0 cs
                           (snd (publish_summary cfg mqtt_client ts cs ?w1))))"
      using monitor_loop_debug_log [of j cs fromisoformat clock 0 st cfg] j st dbg by simp
    with monitor_containers_log [OF ok, of fromisoformat clock] n
    show "(LDebug, ''DEBUG: Would publish to '' @ state_topic cfg (name (cs ! j)) @ '': '' @ state_text st)
            \<in> set (log (monitor_containers fromisoformat cfg mqtt_client ts clock (Inr cs) w))"
      by auto
  qed
  from a b c d e f show ?thesis by blast
qed

theorem container_failure_isolated_witness:
  "fst (get_container_state example_parser (example_clock 1) container_db) = None \<and>
   (LError, ''Error getting state for db: 404 Client Error: Not Found'') \<in> set (log example_cycle) \<and>
   map topic (published example_cycle) =
     [''docker/docker_host/summary'', ''docker/docker_host/web/state'',
      ''docker/docker_host/my-app.v2/state''] \<and>
   (LError, ''Error getting state for db: 404 Client Error: Not Found'') \<in> set (log debug_cycle) \<and>
   (\<exists>st. fst (get_container_state example_parser (example_clock 0) container_web) = Some st \<and>
      (LDebug, ''DEBUG: Would publish to docker/docker_host/web/state: '' @ state_text st)
        \<in> set (log debug_cycle)) \<and>
   published debug_cycle = []"
proof -
  let ?cs = "[container_web, container_db, container_cache]"
  have a: "summary_accepted default_config (Some accepting_client) ''1970-01-01T00:05:03'' ?cs"
    by (simp add: summary_accepted_def accepting_client_def)
  have a': "summary_accepted debug_config None ''1970-01-01T00:05:03'' ?cs"
    by (simp add: summary_accepted_def)
  have k: "1 < length ?cs" by simp
  have f: "fst (container_state example_parser (example_clock 1) (?cs ! 1))
             = Inl (LibraryError ''404 Client Error: Not Found'')"
    by (simp add: container_state_def container_db_def)
  have n1: "?cs ! 1 = container_db" and n0: "?cs ! 0 = container_web" by simp_all
  have msg: "''Error getting state for '' @ name container_db @ '': '' @
               str_exn (LibraryError ''404 Client Error: Not Found'')
             = ''Error getting state for db: 404 Client Error: Not Found''"
    by (simp add: container_db_def)
  note run = container_failure_isolated [where clock = example_clock and k = 1
      and fromisoformat = example_parser and w = empty_world, OF a k f]
  note dbg = container_failure_isolated [where clock = example_clock and k = 1
      and fromisoformat = example_parser and w = empty_world, OF a' k f]
  have c1: "fst (get_container_state example_parser (example_clock 1) container_db) = None"
    using run [THEN conjunct1] unfolding n1 .
  have c2: "(LError, ''Error getting state for db: 404 Client Error: Not Found'') \<in> set (log example_cycle)"
    using run [THEN conjunct2, THEN conjunct1] unfolding n1 msg example_cycle_def .
  have c3: "(LError, ''Error getting state for db: 404 Client Error: Not Found'') \<in> set (log debug_cycle)"
    using dbg [THEN conjunct2, THEN conjunct1] unfolding n1 msg debug_cycle_def .
  have d: "DEBUG debug_config" by (simp add: debug_config_def)
  note dbg4 = dbg [THEN conjunct2, THEN conjunct2, THEN conjunct2, THEN mp, OF refl, THEN mp, OF d]
  have "published debug_cycle = published empty_world"
    using dbg4 [THEN conjunct1] unfolding debug_cycle_def .
  then have c4: "published debug_cycle = []" by (simp add: empty_world_def)
  have "fst (get_container_state example_parser (example_clock 0) container_web) \<noteq> None"
    by code_simp
  then obtain st where st: "fst (get_container_state example_parser (example_clock 0) container_web) = Some st"
    by auto
  have t: "state_topic debug_config (name container_web) = ''docker/docker_host/web/state''"
    by (simp add: state_topic_def debug_config_def default_config_def container_web_def)
  have z: "0 < length ?cs" by simp
  have st0: "fst (get_container_state example_parser (example_clock 0) (?cs ! 0)) = Some st"
    unfolding n0 by (rule st)
  have "(LDebug, ''DEBUG: Would publish to '' @ state_topic debug_config (name (?cs ! 0)) @ '': ''
                   @ state_text st) \<in> set (log debug_cycle)"
    using dbg4 [THEN conjunct2, rule_format, OF z st0] unfolding debug_cycle_def .
  then have c5: "(LDebug, ''DEBUG: Would publish to docker/docker_host/web/state: '' @ state_text st)
        \<in> set (log debug_cycle)"
    unfolding n0 t by simp
  from c1 c2 c3 c4 c5 st example_cycle_topics show ?thesis by blast
qed

text \<open>
  Claim C6 as stated fails in debug mode: the container in the middle fails, the state
  of the two others is computed, and still no state message is published for them.
\<close>

theorem container_failure_debug_counterexample:
  "fst (get_container_state example_parser (example_clock 1) container_db) = None \<and>
   fst (get_container_state example_parser (example_clock 0) container_web) \<noteq> None \<and>
   fst (get_container_state example_parser (example_clock 2) container_cache) \<noteq> None \<and>
   published debug_cycle = []"
  by code_simp

section \<open>Container snapshots\<close>

lemma rsplit_colon_parts:
  assumes "CHR '':'' \<in> set s"
  shows "s = fst (rsplit_colon s) @ '':'' @ snd (rsplit_colon s) \<and> CHR '':'' \<notin> set (snd (rsplit_colon s))"
proof -
  let ?P = "\<lambda>ch. ch \<noteq> CHR '':''"
  from assms have "dropWhile ?P (rev s) \<noteq> []" by (simp add: dropWhile_eq_Nil_conv)
  moreover have "hd (dropWhile ?P (rev s)) = CHR '':''"
    using calculation hd_dropWhile [of ?P "rev s"] by simp
  ultimately have d: "dropWhile ?P (rev s) = CHR '':'' # tl (dropWhile ?P (rev s))"
    by (cases "dropWhile ?P (rev s)") simp_all
  have "rev s = takeWhile ?P (rev s) @ dropWhile ?P (rev s)" by simp
  then have "rev s = takeWhile ?P (rev s) @ CHR '':'' # tl (dropWhile ?P (rev s))"
    using d by simp
  then have "rev (rev s) = rev (takeWhile ?P (rev s) @ CHR '':'' # tl (dropWhile ?P (rev s)))"
    by (rule arg_cong)
  then have "s = rev (tl (dropWhile ?P (rev s))) @ '':'' @ rev (takeWhile ?P (rev s))"
    by simp
  moreover have "CHR '':'' \<notin> set (rev (takeWhile ?P (rev s)))"
    using set_takeWhileD [of "CHR '':''" ?P "rev s"] by auto
  ultimately show ?thesis by (simp add: rsplit_colon_def)
qed

lemma split_image_parts:
  "split_image s = (n, v) \<Longrightarrow>
     (if CHR '':'' \<in> set s then s = n @ '':'' @ v \<and> CHR '':'' \<notin> set v
      else n = s \<and> v = ''latest'')"
  using rsplit_colon_parts [of s]
  by (auto simp add: split_image_def split: if_splits)

lemma get_container_state_Some:
  assumes "reload c = Inr a" and "State a = Some st" and "config_image a = Inr image_raw"
  shows "fst (get_container_state fromisoformat clk c) =
     Some (JObj
       [(''running'', JBool (case Running st of None \<Rightarrow> False | Some b \<Rightarrow> b)),
        (''state'', JStr (case Status st of None \<Rightarrow> ''unknown'' | Some s \<Rightarrow> s)),
        (''health'', JStr (case Health st of None \<Rightarrow> ''N/A''
                          | Some h \<Rightarrow> (case HealthStatus h of None \<Rightarrow> ''N/A'' | Some s \<Rightarrow> s))),
        (''image'', JStr image_raw),
        (''image_version'', JStr (snd (monitor_image_info c image_raw))),
        (''uptime'', JStr (fst (calculate_uptime fromisoformat (now_utc clk)
                                  (case StartedAt st of None \<Rightarrow> [] | Some s \<Rightarrow> s)))),
        (''started_at'', JStr (case StartedAt st of None \<Rightarrow> [] | Some s \<Rightarrow> s)),
        (''pid'', JInt (case Pid st of None \<Rightarrow> 0 | Some p \<Rightarrow> p)),
        (''exit_code'', JInt (case ExitCode st of None \<Rightarrow> 0 | Some x \<Rightarrow> x)),
        (''error'', JStr (case Error st of None \<Rightarrow> [] | Some s \<Rightarrow> s)),
        (''timestamp'', JStr (utcnow_iso clk))])"
  using assms
  by (simp add: get_container_state_def container_state_def Let_def split: prod.splits)

lemma get_container_state_None:
  "reload c = Inl e \<Longrightarrow> fst (get_container_state fromisoformat clk c) = None"
  "reload c = Inr a \<Longrightarrow> State a = None \<Longrightarrow> fst (get_container_state fromisoformat clk c) = None"
  "reload c = Inr a \<Longrightarrow> config_image a = Inl e \<Longrightarrow> fst (get_container_state fromisoformat clk c) = None"
  by (simp_all add: get_container_state_def container_state_def Let_def split: prod.splits option.splits)

text \<open>
  Claim C9. Let the refreshed attributes of a container contain a "State" record. A
  snapshot is built whenever they also contain the configured image, and every snapshot
  that \<open>get_container_state\<close> builds holds the fixed default for each field the state
  record lacks: \<open>running\<close> is False, \<open>state\<close> is "unknown", \<open>pid\<close> and \<open>exit_code\<close> are 0,
  \<open>error\<close> and \<open>started_at\<close> are the empty string, \<open>uptime\<close> is then "Not started", and
  \<open>health\<close> is "N/A" when there is no "Health" key.
\<close>

theorem state_defaults:
  assumes "reload c = Inr a" and "State a = Some st"
  shows "(\<forall>image_raw. config_image a = Inr image_raw \<longrightarrow>
            (\<exists>snap. fst (get_container_state fromisoformat clk c) = Some snap)) \<and>
         (\<forall>snap. fst (get_container_state fromisoformat clk c) = Some snap \<longrightarrow>
            (Running st = None \<longrightarrow> dict_get snap ''running'' = Some (JBool False)) \<and>
            (Status st = None \<longrightarrow> dict_get snap ''state'' = Some (JStr ''unknown'')) \<and>
            (Pid st = None \<longrightarrow> dict_get snap ''pid'' = Some (JInt 0)) \<and>
            (ExitCode st = None \<longrightarrow> dict_get snap ''exit_code'' = Some (JInt 0)) \<and>
            (Error st = None \<longrightarrow> dict_get snap ''error'' = Some (JStr [])) \<and>
            (StartedAt st = None \<longrightarrow>
               dict_get snap ''started_at'' = Some (JStr []) \<and>
               dict_get snap ''uptime'' = Some (JStr ''Not started'')) \<and>
            (Health st = None \<longrightarrow> dict_get snap ''health'' = Some (JStr ''N/A'')))"
proof (cases "config_image a")
  case (Inl e)
  with assms get_container_state_None(3) [of c a e fromisoformat clk] show ?thesis by simp
next
  case (Inr image_raw)
  note s = get_container_state_Some [OF assms Inr, of fromisoformat clk]
  have u: "fst (calculate_uptime fromisoformat (now_utc clk) []) = ''Not started''"
    by (simp add: calculate_uptime_def)
  show ?thesis
  proof (intro conjI allI impI)
    show "\<exists>snap. fst (get_container_state fromisoformat clk c) = Some snap"
      using s by simp
  qed (use s u in auto)
qed

theorem state_defaults_witness:
  "\<exists>snap. fst (get_container_state example_parser (example_clock 0) container_cache) = Some snap \<and>
     dict_get snap ''running'' = Some (JBool False) \<and>
     dict_get snap ''state'' = Some (JStr ''unknown'') \<and>
     dict_get snap ''pid'' = Some (JInt 0) \<and>
     dict_get snap ''exit_code'' = Some (JInt 0) \<and>
     dict_get snap ''error'' = Some (JStr []) \<and>
     dict_get snap ''started_at'' = Some (JStr []) \<and>
     dict_get snap ''uptime'' = Some (JStr ''Not started'') \<and>
     dict_get snap ''health'' = Some (JStr ''N/A'')"
proof -
  have r: "reload container_cache = Inr bare_attrs" by (simp add: container_cache_def)
  have st: "State bare_attrs = Some \<lparr>Running = None, Status = None, Health = None, StartedAt = None,
                     Pid = None, ExitCode = None, Error = None\<rparr>"
    by (simp add: bare_attrs_def)
  have ci: "config_image bare_attrs = Inr ''redis''"
    by (simp add: config_image_def bare_attrs_def)
  from state_defaults [OF r st, of example_parser "example_clock 0"] ci
  show ?thesis by auto
qed

lemma rsplit_colon_unique:
  assumes "CHR '':'' \<notin> set v"
  shows "rsplit_colon (n @ '':'' @ v) = (n, v)"
proof -
  let ?P = "\<lambda>ch. ch \<noteq> CHR '':''"
  have r: "rev (n @ '':'' @ v) = rev v @ CHR '':'' # rev n" by simp
  have p: "x \<in> set (rev v) \<Longrightarrow> x \<noteq> CHR '':''" for x
    using assms by auto
  have "takeWhile ?P (rev v @ CHR '':'' # rev n) = rev v"
    using takeWhile_append2 [of "rev v" ?P "CHR '':'' # rev n"] p by simp
  moreover have "dropWhile ?P (rev v @ CHR '':'' # rev n) = CHR '':'' # rev n"
    using dropWhile_append2 [of "rev v" ?P "CHR '':'' # rev n"] p by simp
  ultimately show ?thesis unfolding rsplit_colon_def r by simp
qed

lemma discovery_image_info_cached:
  assumes "config_image (attrs c) = Inr image_raw"
  shows "discovery_image_info c =
           Inr (case image_tags c of
                  Inl e \<Rightarrow> (image_raw, ''unknown'')
                | Inr tags \<Rightarrow> split_image (case tags of [] \<Rightarrow> image_raw | t # ts \<Rightarrow> t))"
  using assms by (simp add: discovery_image_info_def split: sum.splits list.splits)

lemma discovery_image_info_tagged:
  "image_tags c = Inr (t # ts) \<Longrightarrow> discovery_image_info c = Inr (split_image t)"
  by (simp add: discovery_image_info_def)

lemma discovery_image_info_raises:
  assumes "config_image (attrs c) = Inl e" and "\<forall>t ts. image_tags c \<noteq> Inr (t # ts)"
  shows "discovery_image_info c = Inl e"
  using assms by (simp add: discovery_image_info_def split: sum.splits list.splits)

text \<open>
  Claim C3. In the snapshot of a container, \<open>image\<close> is the raw configured image
  string, also when the tag lookup raises. The resolved reference is the first tag the
  runtime reports for the image, or the raw configured string when there is no tag; it
  is split at its last colon into name and version (the version holds no colon), and
  without a colon the version is "latest". When the tag lookup raises, the version is
  "unknown". The image lookup of the discovery publisher returns name and tag in the
  same way: whenever the cached attributes hold the configured image, and whenever a
  tag is reported; it raises out of its handler only when neither is the case.
\<close>

theorem image_resolution:
  "(\<forall>a image_raw snap.
      reload c = Inr a \<longrightarrow> config_image a = Inr image_raw \<longrightarrow>
      fst (get_container_state fromisoformat clk c) = Some snap \<longrightarrow>
        dict_get snap ''image'' = Some (JStr image_raw) \<and>
        (\<exists>image_name image_version.
           monitor_image_info c image_raw = (image_name, image_version) \<and>
           dict_get snap ''image_version'' = Some (JStr image_version) \<and>
           (case image_tags c of
              Inl e \<Rightarrow> image_name = image_raw \<and> image_version = ''unknown''
            | Inr tags \<Rightarrow>
                (let image_full = (case tags of [] \<Rightarrow> image_raw | t # ts \<Rightarrow> t) in
                 if CHR '':'' \<in> set image_full
                 then image_full = image_name @ '':'' @ image_version \<and> CHR '':'' \<notin> set image_version
                 else image_name = image_full \<and> image_version = ''latest'')))) \<and>
   (\<forall>image_raw. config_image (attrs c) = Inr image_raw \<longrightarrow>
      (\<exists>image_name image_tag.
         discovery_image_info c = Inr (image_name, image_tag) \<and>
         (case image_tags c of
            Inl e \<Rightarrow> image_name = image_raw \<and> image_tag = ''unknown''
          | Inr tags \<Rightarrow>
              (let image_full = (case tags of [] \<Rightarrow> image_raw | t # ts \<Rightarrow> t) in
               if CHR '':'' \<in> set image_full
               then image_full = image_name @ '':'' @ image_tag \<and> CHR '':'' \<notin> set image_tag
               else image_name = image_full \<and> image_tag = ''latest'')))) \<and>
   (\<forall>t ts. image_tags c = Inr (t # ts) \<longrightarrow>
      (\<exists>image_name image_tag.
         discovery_image_info c = Inr (image_name, image_tag) \<and>
         (if CHR '':'' \<in> set t
          then t = image_name @ '':'' @ image_tag \<and> CHR '':'' \<notin> set image_tag
          else image_name = t \<and> image_tag = ''latest''))) \<and>
   (\<forall>e. config_image (attrs c) = Inl e \<longrightarrow> (\<forall>t ts. image_tags c \<noteq> Inr (t # ts)) \<longrightarrow>
      discovery_image_info c = Inl e)"
proof (intro conjI allI impI)
  fix a image_raw snap
  assume r: "reload c = Inr a" and ci: "config_image a = Inr image_raw"
    and g: "fst (get_container_state fromisoformat clk c) = Some snap"
  obtain st where st: "State a = Some st"
    using r g get_container_state_None(2) [of c a fromisoformat clk] by (cases "State a") auto
  note s = get_container_state_Some [OF r st ci, of fromisoformat clk]
  with g show "dict_get snap ''image'' = Some (JStr image_raw)" by auto
  from s g have v: "dict_get snap ''image_version'' = Some (JStr (snd (monitor_image_info c image_raw)))"
    by auto
  obtain n v where nv: "monitor_image_info c image_raw = (n, v)"
    by (cases "monitor_image_info c image_raw")
  have m: "(case image_tags c of
               Inl e \<Rightarrow> n = image_raw \<and> v = ''unknown''
             | Inr tags \<Rightarrow>
                 (let image_full = (case tags of [] \<Rightarrow> image_raw | t # ts \<Rightarrow> t) in
                  if CHR '':'' \<in> set image_full
                  then image_full = n @ '':'' @ v \<and> CHR '':'' \<notin> set v
                  else n = image_full \<and> v = ''latest''))"
  proof (cases "image_tags c")
    case (Inl e)
    with nv show ?thesis by (auto simp add: monitor_image_info_def)
  next
    case (Inr tags)
    with nv have "split_image (case tags of [] \<Rightarrow> image_raw | t # ts \<Rightarrow> t) = (n, v)"
      by (simp add: monitor_image_info_def)
    from split_image_parts [OF this] Inr show ?thesis by (simp add: Let_def)
  qed
  from nv v m
  show "\<exists>image_name image_version.
           monitor_image_info c image_raw = (image_name, image_version) \<and>
           dict_get snap ''image_version'' = Some (JStr image_version) \<and>
           (case image_tags c of
              Inl e \<Rightarrow> image_name = image_raw \<and> image_version = ''unknown''
            | Inr tags \<Rightarrow>
                (let image_full = (case tags of [] \<Rightarrow> image_raw | t # ts \<Rightarrow> t) in
                 if CHR '':'' \<in> set image_full
                 then image_full = image_name @ '':'' @ image_version \<and> CHR '':'' \<notin> set image_version
                 else image_name = image_full \<and> image_version = ''latest''))"
    by simp
next
  fix image_raw
  assume ci: "config_image (attrs c) = Inr image_raw"
  note d = discovery_image_info_cached [OF ci]
  show "\<exists>image_name image_tag.
         discovery_image_info c = Inr (image_name, image_tag) \<and>
         (case image_tags c of
            Inl e \<Rightarrow> image_name = image_raw \<and> image_tag = ''unknown''
          | Inr tags \<Rightarrow>
              (let image_full = (case tags of [] \<Rightarrow> image_raw | t # ts \<Rightarrow> t) in
               if CHR '':'' \<in> set image_full
               then image_full = image_name @ '':'' @ image_tag \<and> CHR '':'' \<notin> set image_tag
               else image_name = image_full \<and> image_tag = ''latest''))"
  proof (cases "image_tags c")
    case (Inl e)
    with d show ?thesis by simp
  next
    case (Inr tags)
    obtain n v where nv: "split_image (case tags of [] \<Rightarrow> image_raw | t # ts \<Rightarrow> t) = (n, v)"
      by (cases "split_image (case tags of [] \<Rightarrow> image_raw | t # ts \<Rightarrow> t)")
    from split_image_parts [OF nv] d Inr nv show ?thesis by (simp add: Let_def)
  qed
next
  fix t ts
  assume tg: "image_tags c = Inr (t # ts)"
  obtain n v where nv: "split_image t = (n, v)" by (cases "split_image t")
  from split_image_parts [OF nv] discovery_image_info_tagged [OF tg] nv
  show "\<exists>image_name image_tag.
         discovery_image_info c = Inr (image_name, image_tag) \<and>
         (if CHR '':'' \<in> set t
          then t = image_name @ '':'' @ image_tag \<and> CHR '':'' \<notin> set image_tag
          else image_name = t \<and> image_tag = ''latest'')"
    by simp
next
  fix e
  assume "config_image (attrs c) = Inl e" and "\<forall>t ts. image_tags c \<noteq> Inr (t # ts)"
  then show "discovery_image_info c = Inl e" by (rule discovery_image_info_raises)
qed

theorem image_resolution_witness:
  "(\<exists>snap. fst (get_container_state example_parser (example_clock 0) container_web) = Some snap \<and>
       dict_get snap ''image'' = Some (JStr ''nginx:1.25'') \<and>
       dict_get snap ''image_version'' = Some (JStr ''1.25'')) \<and>
   monitor_image_info container_web ''nginx:1.25'' = (''nginx'', ''1.25'') \<and>
   (\<exists>snap. fst (get_container_state example_parser (example_clock 0) container_untagged) = Some snap \<and>
       dict_get snap ''image'' = Some (JStr ''nginx:1.25'') \<and>
       dict_get snap ''image_version'' = Some (JStr ''unknown'')) \<and>
   (\<exists>snap. fst (get_container_state example_parser (example_clock 0) container_cache) = Some snap \<and>
       dict_get snap ''image'' = Some (JStr ''redis'') \<and>
       dict_get snap ''image_version'' = Some (JStr ''latest'')) \<and>
   discovery_image_info container_web = Inr (''nginx'', ''1.25'') \<and>
   discovery_image_info container_untagged = Inr (''nginx:1.25'', ''unknown'') \<and>
   discovery_image_info container_cache = Inr (''redis'', ''latest'') \<and>
   discovery_image_info container_web_broken = Inl (KeyError ''Config'')"
proof -
  have ci: "config_image running_attrs = Inr ''nginx:1.25''" "config_image bare_attrs = Inr ''redis''"
    by (simp_all add: config_image_def running_attrs_def bare_attrs_def)
  have st: "State running_attrs \<noteq> None" "State bare_attrs \<noteq> None"
    by (simp_all add: running_attrs_def bare_attrs_def)
  have r: "reload container_web = Inr running_attrs" "reload container_untagged = Inr running_attrs"
    "reload container_cache = Inr bare_attrs"
    by (simp_all add: container_web_def container_untagged_def container_cache_def)
  have a: "attrs container_web = running_attrs" "attrs container_untagged = running_attrs"
    "attrs container_cache = bare_attrs"
    "config_image (attrs container_web_broken) = Inl (KeyError ''Config'')"
    by (simp_all add: container_web_def container_untagged_def container_cache_def
          container_web_broken_def config_image_def)
  have tg: "image_tags container_web = Inr [''nginx:1.25'']"
    "image_tags container_untagged = Inl (LibraryError ''404 Client Error: No such image'')"
    "image_tags container_cache = Inr []"
    "image_tags container_web_broken = Inl (LibraryError ''404 Client Error: No such image'')"
    by (simp_all add: container_web_def container_untagged_def container_cache_def
          container_web_broken_def)
  have m: "monitor_image_info container_web ''nginx:1.25'' = (''nginx'', ''1.25'')"
    "monitor_image_info container_untagged ''nginx:1.25'' = (''nginx:1.25'', ''unknown'')"
    "monitor_image_info container_cache ''redis'' = (''redis'', ''latest'')"
    by code_simp+
  have sp: "rsplit_colon ''nginx:1.25'' = (''nginx'', ''1.25'')"
    by code_simp
  obtain s1 where s1: "fst (get_container_state example_parser (example_clock 0) container_web) = Some s1"
    using get_container_state_Some [OF r(1) _ ci(1)] st(1) by fastforce
  obtain s2 where s2: "fst (get_container_state example_parser (example_clock 0) container_untagged) = Some s2"
    using get_container_state_Some [OF r(2) _ ci(1)] st(1) by fastforce
  obtain s3 where s3: "fst (get_container_state example_parser (example_clock 0) container_cache) = Some s3"
    using get_container_state_Some [OF r(3) _ ci(2)] st(2) by fastforce
  note web = image_resolution [of container_web example_parser "example_clock 0"]
  note untagged = image_resolution [of container_untagged example_parser "example_clock 0"]
  note cache = image_resolution [of container_cache example_parser "example_clock 0"]
  note broken = image_resolution [of container_web_broken example_parser "example_clock 0"]
  from web r(1) ci(1) s1 m(1)
  have w1: "dict_get s1 ''image'' = Some (JStr ''nginx:1.25'') \<and> dict_get s1 ''image_version'' = Some (JStr ''1.25'')"
    by auto
  from untagged r(2) ci(1) s2 m(2)
  have w2: "dict_get s2 ''image'' = Some (JStr ''nginx:1.25'') \<and> dict_get s2 ''image_version'' = Some (JStr ''unknown'')"
    by auto
  from cache r(3) ci(2) s3 m(3)
  have w3: "dict_get s3 ''image'' = Some (JStr ''redis'') \<and> dict_get s3 ''image_version'' = Some (JStr ''latest'')"
    by auto
  from web tg(1) obtain n v where "discovery_image_info container_web = Inr (n, v)"
    and "''nginx:1.25'' = n @ '':'' @ v" and "CHR '':'' \<notin> set v"
    by fastforce
  with rsplit_colon_unique [of v n] sp
  have d1: "discovery_image_info container_web = Inr (''nginx'', ''1.25'')" by simp
  from untagged a(2) ci(1) tg(2)
  have d2: "discovery_image_info container_untagged = Inr (''nginx:1.25'', ''unknown'')" by fastforce
  from cache a(3) ci(2) tg(3)
  have d3: "discovery_image_info container_cache = Inr (''redis'', ''latest'')" by fastforce
  from broken a(4) tg(4)
  have d4: "discovery_image_info container_web_broken = Inl (KeyError ''Config'')" by simp
  from s1 s2 s3 w1 w2 w3 m(1) d1 d2 d3 d4 show ?thesis by blast
qed

section \<open>The discovery publisher\<close>

lemma publish_all_returns:
  "publish_all (Some cl) ms w = (None, w') \<Longrightarrow>
     published w' = published w @ ms \<and> log w' = log w"
proof (induction ms arbitrary: w)
  case Nil
  then show ?case by simp
next
  case (Cons m ms)
  show ?case
  proof (cases "cl m")
    case None
    with Cons.prems have "publish_all (Some cl) ms (w\<lparr>published := published w @ [m]\<rparr>) = (None, w')"
      by (simp add: client_publish_Some)
    from Cons.IH [OF this] show ?thesis by simp
  next
    case (Some e)
    with Cons.prems show ?thesis by (simp add: client_publish_Some)
  qed
qed

lemma publish_all_accepted:
  "\<forall>m \<in> set ms. cl m = None \<Longrightarrow> fst (publish_all (Some cl) ms w) = None"
  by (induction ms arbitrary: w) (simp_all add: client_publish_Some)

lemma publish_container_discovery_returns:
  assumes "publish_container_discovery cfg (Some cl) c w = (None, w')"
  shows "published w' = published w @ container_discovery_messages cfg (name c)"
proof -
  from assms obtain r where r: "discovery_image_info c = Inr r"
    by (cases "discovery_image_info c") (simp_all add: publish_container_discovery_def Let_def)
  let ?m1 = "\<lparr>topic = binary_sensor_topic cfg (name c),
               payload = binary_sensor_config cfg (name c), retain = True\<rparr>"
  from assms r have a: "cl ?m1 = None"
    by (cases "cl ?m1") (simp_all add: publish_container_discovery_def client_publish_Some Let_def split: prod.splits)
  let ?w1 = "logger LInfo (''Published discovery for '' @ name c @ '' status'')
               (w\<lparr>published := published w @ [?m1]\<rparr>)"
  from assms r a have "publish_all (Some cl) (tl (container_discovery_messages cfg (name c))) ?w1 = (None, w')"
    by (simp add: publish_container_discovery_def client_publish_Some container_discovery_messages_def Let_def
          split: prod.splits del: publish_all.simps)
  from publish_all_returns [OF this] show ?thesis
    by (simp add: container_discovery_messages_def)
qed

lemma publish_container_discovery_accepted:
  assumes "discovery_image_info c = Inr r"
      and "\<forall>m \<in> set (container_discovery_messages cfg (name c)). cl m = None"
  shows "fst (publish_container_discovery cfg (Some cl) c w) = None"
proof -
  let ?m1 = "\<lparr>topic = binary_sensor_topic cfg (name c),
               payload = binary_sensor_config cfg (name c), retain = True\<rparr>"
  from assms(2) have a: "cl ?m1 = None" by (simp add: container_discovery_messages_def)
  from assms(2) have "\<forall>m \<in> set (tl (container_discovery_messages cfg (name c))). cl m = None"
    by (simp add: container_discovery_messages_def)
  from publish_all_accepted [OF this] assms(1) a show ?thesis
    by (simp add: publish_container_discovery_def client_publish_Some container_discovery_messages_def Let_def
          split: prod.splits del: publish_all.simps)
qed

lemma discovery_loop_published:
  assumes "\<forall>c \<in> set cs. \<exists>r. discovery_image_info c = Inr r"
      and "\<forall>c \<in> set cs. \<forall>m \<in> set (container_discovery_messages cfg (name c)). cl m = None"
  shows "published (discovery_loop cfg (Some cl) cs w) =
           published w @ concat (map (\<lambda>c. container_discovery_messages cfg (name c)) cs)"
  using assms
proof (induction cs arbitrary: w)
  case Nil
  then show ?case by simp
next
  case (Cons c cs)
  from Cons.prems obtain r where r: "discovery_image_info c = Inr r" by auto
  from Cons.prems have acc: "\<forall>m \<in> set (container_discovery_messages cfg (name c)). cl m = None" by simp
  obtain w' where p: "publish_container_discovery cfg (Some cl) c w = (None, w')"
    using publish_container_discovery_accepted [OF r acc, of w]
    by (cases "publish_container_discovery cfg (Some cl) c w") simp
  from publish_container_discovery_returns [OF p]
  have pw: "published w' = published w @ container_discovery_messages cfg (name c)" .
  have "published (discovery_loop cfg (Some cl) cs w') =
          published w' @ concat (map (\<lambda>c. container_discovery_messages cfg (name c)) cs)"
    using Cons.prems by (intro Cons.IH) simp_all
  with p pw show ?case by simp
qed

lemma published_fatal [simp]: "published (snd (fatal e w)) = published w"
  by (simp add: fatal_def)

lemma discovery_main_published:
  assumes "\<not> DEBUG cfg" and "from_env rt = None" and "connect rt = Connected cl" and "listing rt = Inr cs"
      and "\<forall>m \<in> set (summary_discovery_messages cfg). cl m = None"
      and "\<forall>c \<in> set cs. \<exists>r. discovery_image_info c = Inr r"
      and "\<forall>c \<in> set cs. \<forall>m \<in> set (container_discovery_messages cfg (name c)). cl m = None"
  shows "fst (discovery_main cfg rt w) = None \<and>
         published (snd (discovery_main cfg rt w)) =
           published w @ summary_discovery_messages cfg @
             concat (map (\<lambda>c. container_discovery_messages cfg (name c)) cs)"
proof -
  let ?w4 = "logger LInfo ''Connected to Docker daemon''
               (logger LInfo (''Device: '' @ DEVICE_NAME cfg @ '' ('' @ DEVICE_ID cfg @ '')'')
                  (logger LInfo ''SentryLab-Docker Discovery starting...'' w))"
  let ?w5 = "logger LInfo (''Found '' @ str_nat (length cs) @ '' containers'') ?w4"
  obtain w6 where p: "publish_all (Some cl) (summary_discovery_messages cfg) ?w5 = (None, w6)"
    using publish_all_accepted [OF assms(5), of ?w5]
    by (cases "publish_all (Some cl) (summary_discovery_messages cfg) ?w5") simp
  from publish_all_returns [OF p]
  have p6: "published w6 = published w @ summary_discovery_messages cfg" by simp
  have s: "publish_summary_discovery cfg (Some cl) ?w5 = (None, w6)"
    using p by (simp add: publish_summary_discovery_def)
  have "discovery_main cfg rt w =
          (None, logger LInfo (''Discovery complete for '' @ str_nat (length cs) @ '' containers'')
                   (discovery_loop cfg (Some cl) cs w6))"
    using assms(1-4) s by (simp add: discovery_main_def setup_mqtt_def Let_def)
  with discovery_loop_published [OF assms(6,7), of w6] p6 show ?thesis by simp
qed

lemma discovery_main_debug:
  assumes "DEBUG cfg"
  shows "published (snd (discovery_main cfg rt w)) = published w"
proof -
  have l: "published (discovery_loop cfg None cs w') = published w'" for cs w'
    using assms by (induction cs arbitrary: w') (simp_all add: publish_container_discovery_def Let_def)
  show ?thesis
    using assms l
    by (simp add: discovery_main_def setup_mqtt_def publish_summary_discovery_def Let_def
          split: option.splits sum.splits broker.splits)
qed

lemma replace_char_single:
  "replace_char old [new] s = map (\<lambda>ch. if ch = old then new else ch) s"
  by (induction s) (simp_all add: replace_char_def)

lemma safe_name_map:
  "safe_name n = map (\<lambda>ch. if ch = CHR ''-'' \<or> ch = CHR ''.'' then CHR ''_'' else ch) n"
  by (simp add: safe_name_def replace_char_single)

text \<open>
  Claim C4. The sanitized name of a container replaces every \<open>-\<close> and \<open>.\<close> of its name
  by \<open>_\<close>. Whenever \<open>publish_container_discovery\<close> returns on a connected client, the
  first six descriptors it has published are: status, state, uptime, health and image
  with the unique id \<^verbatim>\<open>sl_docker_<PROXMOX_HOST>_<PROXMOX_VMID>_<sanitized>_<kind>\<close> on the
  topic \<^verbatim>\<open><HA_BASE_TOPIC>/binary_sensor/<unique_id>/config\<close> for the status and
  \<^verbatim>\<open><HA_BASE_TOPIC>/sensor/<unique_id>/config\<close> for the others, and the image version with
  the unique id \<^verbatim>\<open>docker_<sanitized>_version\<close> on the topic
  \<^verbatim>\<open><HA_BASE_TOPIC>/sensor/docker_<sanitized>/version/config\<close>.
\<close>

theorem discovery_naming:
  assumes "publish_container_discovery cfg (Some cl) c w = (None, w')"
  shows "let sanitized = map (\<lambda>ch. if ch = CHR ''-'' \<or> ch = CHR ''.'' then CHR ''_'' else ch) (name c);
             unique = ''sl_docker_'' @ PROXMOX_HOST cfg @ ''_'' @ PROXMOX_VMID cfg @ ''_'' @ sanitized
         in safe_name (name c) = sanitized \<and>
            (\<exists>ms. published w' = published w @ ms \<and>
               map (\<lambda>m. (topic m, dict_get (payload m) ''unique_id'')) (take 6 ms) =
                 [(HA_BASE_TOPIC cfg @ ''/binary_sensor/'' @ unique @ ''_status/config'',
                   Some (JStr (unique @ ''_status''))),
                  (HA_BASE_TOPIC cfg @ ''/sensor/'' @ unique @ ''_state/config'',
                   Some (JStr (unique @ ''_state''))),
                  (HA_BASE_TOPIC cfg @ ''/sensor/'' @ unique @ ''_uptime/config'',
                   Some (JStr (unique @ ''_uptime''))),
                  (HA_BASE_TOPIC cfg @ ''/sensor/'' @ unique @ ''_health/config'',
                   Some (JStr (unique @ ''_health''))),
                  (HA_BASE_TOPIC cfg @ ''/sensor/'' @ unique @ ''_image/config'',
                   Some (JStr (unique @ ''_image''))),
                  (HA_BASE_TOPIC cfg @ ''/sensor/docker_'' @ sanitized @ ''/version/config'',
                   Some (JStr (''docker_'' @ sanitized @ ''_version'')))])"
proof -
  have t: "map (\<lambda>m. (topic m, dict_get (payload m) ''unique_id''))
             (take 6 (container_discovery_messages cfg (name c))) =
           [(HA_BASE_TOPIC cfg @ ''/binary_sensor/'' @ topic_prefix cfg (name c) @ ''_status/config'',
             Some (JStr (topic_prefix cfg (name c) @ ''_status''))),
            (HA_BASE_TOPIC cfg @ ''/sensor/'' @ topic_prefix cfg (name c) @ ''_state/config'',
             Some (JStr (topic_prefix cfg (name c) @ ''_state''))),
            (HA_BASE_TOPIC cfg @ ''/sensor/'' @ topic_prefix cfg (name c) @ ''_uptime/config'',
             Some (JStr (topic_prefix cfg (name c) @ ''_uptime''))),
            (HA_BASE_TOPIC cfg @ ''/sensor/'' @ topic_prefix cfg (name c) @ ''_health/config'',
             Some (JStr (topic_prefix cfg (name c) @ ''_health''))),
            (HA_BASE_TOPIC cfg @ ''/sensor/'' @ topic_prefix cfg (name c) @ ''_image/config'',
             Some (JStr (topic_prefix cfg (name c) @ ''_image''))),
            (HA_BASE_TOPIC cfg @ ''/sensor/docker_'' @ safe_name (name c) @ ''/version/config'',
             Some (JStr (''docker_'' @ safe_name (name c) @ ''_version'')))]"
    by (simp add: container_discovery_messages_def binary_sensor_topic_def binary_sensor_config_def
          state_sensor_topic_def state_sensor_config_def uptime_sensor_topic_def uptime_sensor_config_def
          health_sensor_topic_def health_sensor_config_def image_sensor_topic_def image_sensor_config_def
          image_version_topic_def image_version_config_def)
  from publish_container_discovery_returns [OF assms] t show ?thesis
    by (simp add: Let_def topic_prefix_def safe_name_map)
qed

lemma example_discovery_returns:
  "publish_container_discovery default_config (Some accepting_client) container_cache empty_world =
     (None, snd (publish_container_discovery default_config (Some accepting_client) container_cache empty_world))"
proof -
  have "discovery_image_info container_cache = Inr (''redis'', ''latest'')"
    by code_simp
  from publish_container_discovery_accepted [OF this, of default_config accepting_client empty_world]
  have "fst (publish_container_discovery default_config (Some accepting_client) container_cache empty_world) = None"
    by (simp add: accepting_client_def)
  then show ?thesis
    by (cases "publish_container_discovery default_config (Some accepting_client) container_cache empty_world") simp
qed

theorem discovery_naming_witness:
  "safe_name ''my-app.v2'' = ''my_app_v2'' \<and>
   map (\<lambda>m. (topic m, dict_get (payload m) ''unique_id''))
     (take 6 (published (snd (publish_container_discovery default_config (Some accepting_client)
                                container_cache empty_world)))) =
     [(''homeassistant/binary_sensor/sl_docker_proxmox_0_my_app_v2_status/config'',
       Some (JStr ''sl_docker_proxmox_0_my_app_v2_status'')),
      (''homeassistant/sensor/sl_docker_proxmox_0_my_app_v2_state/config'',
       Some (JStr ''sl_docker_proxmox_0_my_app_v2_state'')),
      (''homeassistant/sensor/sl_docker_proxmox_0_my_app_v2_uptime/config'',
       Some (JStr ''sl_docker_proxmox_0_my_app_v2_uptime'')),
      (''homeassistant/sensor/sl_docker_proxmox_0_my_app_v2_health/config'',
       Some (JStr ''sl_docker_proxmox_0_my_app_v2_health'')),
      (''homeassistant/sensor/sl_docker_proxmox_0_my_app_v2_image/config'',
       Some (JStr ''sl_docker_proxmox_0_my_app_v2_image'')),
      (''homeassistant/sensor/docker_my_app_v2/version/config'',
       Some (JStr ''docker_my_app_v2_version''))]"
  using discovery_naming [OF example_discovery_returns]
  by (simp add: Let_def default_config_def container_cache_def empty_world_def)

lemma length_container_discovery_messages [simp]:
  "length (container_discovery_messages cfg n) = 7"
  by (simp add: container_discovery_messages_def)

lemma length_summary_discovery_messages [simp]:
  "length (summary_discovery_messages cfg) = 4"
  by (simp add: summary_discovery_messages_def)

lemma length_concat_sevens:
  "length (concat (map (\<lambda>c. container_discovery_messages cfg (name c)) cs)) = 7 * length cs"
  by (induction cs) simp_all

lemma retain_container_discovery_messages:
  "m \<in> set (container_discovery_messages cfg n) \<Longrightarrow> retain m"
  by (auto simp add: container_discovery_messages_def sentrylab_version_message_def)

lemma retain_summary_discovery_messages:
  "m \<in> set (summary_discovery_messages cfg) \<Longrightarrow> retain m"
  by (auto simp add: summary_discovery_messages_def sentrylab_version_message_def)

text \<open>
  Claim C5, as amended. In a discovery run that is not in debug mode, that connects to
  the broker and enumerates \<open>n\<close> containers, whose client accepts every publish call and
  in which no image lookup raises out of its handler, the messages published are the 4
  fleet-level descriptors (total, running, stopped, SentryLab version) followed, for
  each container in turn, by its 7 descriptors (status, state, uptime, health, image,
  image version, SentryLab version), all retained: \<open>4 + 7 n\<close> messages, and exactly 4 for
  no container.
\<close>

theorem discovery_message_counts:
  assumes "\<not> DEBUG cfg" and "from_env rt = None" and "connect rt = Connected cl" and "listing rt = Inr cs"
      and "\<forall>m. cl m = None"
      and "\<forall>c \<in> set cs. \<exists>r. discovery_image_info c = Inr r"
  shows "fst (discovery_main cfg rt w) = None \<and>
         published (snd (discovery_main cfg rt w)) =
           published w @ summary_discovery_messages cfg @
             concat (map (\<lambda>c. container_discovery_messages cfg (name c)) cs) \<and>
         length (summary_discovery_messages cfg) = 4 \<and>
         map (\<lambda>m. dict_get (payload m) ''value_template'') (summary_discovery_messages cfg) =
           [Some (JStr ''{{ value_json.total }}''), Some (JStr ''{{ value_json.running }}''),
            Some (JStr ''{{ value_json.stopped }}''), Some (JStr ''{{ value_json.sentrylab_version }}'')] \<and>
         (\<forall>c \<in> set cs.
            length (container_discovery_messages cfg (name c)) = 7 \<and>
            map (\<lambda>m. dict_get (payload m) ''value_template'') (container_discovery_messages cfg (name c)) =
              [Some (JStr ''{{ value_json.running }}''), Some (JStr ''{{ value_json.state }}''),
               Some (JStr ''{{ value_json.uptime }}''),
               Some (JStr ''{{ value_json.health | default('N/A') }}''),
               Some (JStr ''{{ value_json.image }}''), Some (JStr ''{{ value_json.image_version }}''),
               Some (JStr ''{{ value_json.sentrylab_version }}'')]) \<and>
         (\<forall>m \<in> set (summary_discovery_messages cfg @
                       concat (map (\<lambda>c. container_discovery_messages cfg (name c)) cs)). retain m) \<and>
         length (published (snd (discovery_main cfg rt w))) = length (published w) + 4 + 7 * length cs"
proof -
  from assms(5) have a5: "\<forall>m \<in> set (summary_discovery_messages cfg). cl m = None"
    and a7: "\<forall>c \<in> set cs. \<forall>m \<in> set (container_discovery_messages cfg (name c)). cl m = None"
    by simp_all
  note main = discovery_main_published [OF assms(1-4) a5 assms(6) a7, of w]
  have vt1: "map (\<lambda>m. dict_get (payload m) ''value_template'') (summary_discovery_messages cfg) =
           [Some (JStr ''{{ value_json.total }}''), Some (JStr ''{{ value_json.running }}''),
            Some (JStr ''{{ value_json.stopped }}''), Some (JStr ''{{ value_json.sentrylab_version }}'')]"
    by (simp add: summary_discovery_messages_def total_config_def running_config_def stopped_config_def
          sentrylab_version_message_def sentrylab_version_config_def)
  have vt2: "map (\<lambda>m. dict_get (payload m) ''value_template'') (container_discovery_messages cfg n) =
              [Some (JStr ''{{ value_json.running }}''), Some (JStr ''{{ value_json.state }}''),
               Some (JStr ''{{ value_json.uptime }}''),
               Some (JStr ''{{ value_json.health | default('N/A') }}''),
               Some (JStr ''{{ value_json.image }}''), Some (JStr ''{{ value_json.image_version }}''),
               Some (JStr ''{{ value_json.sentrylab_version }}'')]" for n
    by (simp add: container_discovery_messages_def binary_sensor_config_def state_sensor_config_def
          uptime_sensor_config_def health_sensor_config_def image_sensor_config_def
          image_version_config_def sentrylab_version_message_def sentrylab_version_config_def)
  have r: "\<forall>m \<in> set (summary_discovery_messages cfg @
                       concat (map (\<lambda>c. container_discovery_messages cfg (name c)) cs)). retain m"
    using retain_container_discovery_messages retain_summary_discovery_messages by auto
  have l: "length (published (snd (discovery_main cfg rt w))) = length (published w) + 4 + 7 * length cs"
    using main by (simp add: length_concat_sevens)
  from main vt1 vt2 r l show ?thesis by simp
qed

theorem discovery_message_counts_witness:
  "length (published (snd (discovery_main default_config example_runtime empty_world))) = 18 \<and>
   length (published (snd (discovery_main default_config empty_runtime empty_world))) = 4"
proof -
  have d: "\<not> DEBUG default_config" by (simp add: default_config_def)
  have i: "\<forall>c \<in> set [container_web, container_cache]. \<exists>r. discovery_image_info c = Inr r"
    by (simp add: discovery_image_info_def container_web_def container_cache_def
          config_image_def bare_attrs_def)
  have a: "\<forall>m. accepting_client m = None" by (simp add: accepting_client_def)
  have "length (published (snd (discovery_main default_config example_runtime empty_world))) =
          length (published empty_world) + 4 + 7 * length [container_web, container_cache]"
    using discovery_message_counts [of default_config example_runtime accepting_client
            "[container_web, container_cache]" empty_world] d i a
    by (simp add: example_runtime_def)
  moreover have "length (published (snd (discovery_main default_config empty_runtime empty_world))) =
          length (published empty_world) + 4 + 7 * length ([] :: container list)"
    using discovery_message_counts [of default_config empty_runtime accepting_client "[]" empty_world] d a
    by (simp add: empty_runtime_def)
  ultimately show ?thesis by (simp add: empty_world_def)
qed

text \<open>
  Claim C5 as stated fails in debug mode: \<open>setup_mqtt\<close> returns no client, both
  publishers return after a log line, and a run over one container publishes nothing.
\<close>

theorem discovery_debug_counterexample:
  "listing single_runtime = Inr [container_web] \<and>
   published (snd (discovery_main debug_config single_runtime empty_world)) = []"
proof -
  have "DEBUG debug_config" by (simp add: debug_config_def)
  from discovery_main_debug [OF this, of single_runtime empty_world]
  show ?thesis by (simp add: single_runtime_def empty_world_def)
qed

lemma publish_all_prefix:
  "\<exists>k. published (snd (publish_all mqtt_client ms w)) = published w @ take k ms"
proof (induction ms arbitrary: w)
  case Nil
  then show ?case by simp
next
  case (Cons m ms)
  show ?case
  proof (cases mqtt_client)
    case None
    then have "published (snd (publish_all mqtt_client (m # ms) w)) = published w @ take 0 (m # ms)"
      by (simp add: client_publish_def)
    then show ?thesis by blast
  next
    case (Some cl)
    show ?thesis
    proof (cases "cl m")
      case (Some e)
      with \<open>mqtt_client = Some cl\<close>
      have "published (snd (publish_all mqtt_client (m # ms) w)) = published w @ take 0 (m # ms)"
        by (simp add: client_publish_Some)
      then show ?thesis by blast
    next
      case None
      let ?w1 = "w\<lparr>published := published w @ [m]\<rparr>"
      from Cons.IH [of ?w1] obtain k where
        "published (snd (publish_all mqtt_client ms ?w1)) = published ?w1 @ take k ms" by blast
      with None \<open>mqtt_client = Some cl\<close>
      have "published (snd (publish_all mqtt_client (m # ms) w)) = published w @ take (Suc k) (m # ms)"
        by (simp add: client_publish_Some)
      then show ?thesis by blast
    qed
  qed
qed

lemma publish_container_discovery_lookup_raises:
  assumes "discovery_image_info c = Inl e" and "\<not> (mqtt_client = None \<and> DEBUG cfg)"
  shows "publish_container_discovery cfg mqtt_client c w = (Some e, w)"
  using assms by (auto simp add: publish_container_discovery_def Let_def)

lemma publish_container_discovery_debug:
  assumes "mqtt_client = None" and "DEBUG cfg"
  shows "published (snd (publish_container_discovery cfg mqtt_client c w)) = published w"
  using assms by (simp add: publish_container_discovery_def)

lemma publish_container_discovery_prefix:
  "\<exists>k. published (snd (publish_container_discovery cfg mqtt_client c w)) =
         published w @ take k (container_discovery_messages cfg (name c))"
proof (cases "mqtt_client = None \<and> DEBUG cfg")
  case True
  then have "published (snd (publish_container_discovery cfg mqtt_client c w)) =
               published w @ take 0 (container_discovery_messages cfg (name c))"
    by (simp add: publish_container_discovery_debug)
  then show ?thesis by blast
next
  case nd: False
  show ?thesis
  proof (cases "discovery_image_info c")
    case (Inl e)
    from publish_container_discovery_lookup_raises [OF this nd, of w]
    have "published (snd (publish_container_discovery cfg mqtt_client c w)) =
               published w @ take 0 (container_discovery_messages cfg (name c))"
      by simp
    then show ?thesis by blast
  next
    case (Inr r)
    let ?m1 = "\<lparr>topic = binary_sensor_topic cfg (name c),
                 payload = binary_sensor_config cfg (name c), retain = True\<rparr>"
    let ?rest = "tl (container_discovery_messages cfg (name c))"
    have D: "container_discovery_messages cfg (name c) = ?m1 # ?rest"
      by (simp add: container_discovery_messages_def)
    obtain x w1 where cp: "client_publish mqtt_client ?m1 w = (x, w1)"
      by (cases "client_publish mqtt_client ?m1 w")
    show ?thesis
    proof (cases x)
      case (Some e)
      with cp have "w1 = w"
        by (auto simp add: client_publish_def split: option.splits)
      with Some cp Inr nd
      have "published (snd (publish_container_discovery cfg mqtt_client c w)) =
               published w @ take 0 (container_discovery_messages cfg (name c))"
        by (cases r) (auto simp add: publish_container_discovery_def Let_def)
      then show ?thesis by blast
    next
      case None
      with cp have p1: "published w1 = published w @ [?m1]"
        by (auto simp add: client_publish_def split: option.splits)
      let ?w2 = "logger LInfo (''Published discovery for '' @ name c @ '' status'') w1"
      from publish_all_prefix [of mqtt_client ?rest ?w2] obtain k where
        k: "published (snd (publish_all mqtt_client ?rest ?w2)) = published ?w2 @ take k ?rest"
        by blast
      have "publish_container_discovery cfg mqtt_client c w = publish_all mqtt_client ?rest ?w2"
        using None cp Inr nd
        by (cases r)
           (auto simp add: publish_container_discovery_def Let_def container_discovery_messages_def
              simp del: publish_all.simps)
      with k p1
      have "published (snd (publish_container_discovery cfg mqtt_client c w)) =
              published w @ take (Suc k) (?m1 # ?rest)"
        by simp
      with D show ?thesis by metis
    qed
  qed
qed

lemma publish_container_discovery_same:
  assumes "name c1 = name c2"
      and "discovery_image_info c1 = Inr r1" and "discovery_image_info c2 = Inr r2"
  shows "publish_container_discovery cfg mqtt_client c1 w =
         publish_container_discovery cfg mqtt_client c2 w"
  using assms
  by (cases r1; cases r2) (simp add: publish_container_discovery_def Let_def)

text \<open>
  Claim C7. Take two calls of \<open>publish_container_discovery\<close> with the same
  configuration, the same client and the same container name. The descriptors each call
  publishes are an initial part of the seven messages that the configuration and the
  name fix, so descriptor for descriptor the topics and payloads of the two calls are
  identical, whatever the health, state, image tags and other attributes of the two
  containers are; the two lists are equal unless one call published nothing. The whole
  outcome of the two calls (messages, log, exception) is equal whenever both image
  lookups return, in particular whenever the cached attributes of both containers hold
  the configured image.
\<close>

theorem discovery_deterministic:
  assumes "name c1 = name c2"
  shows "(\<exists>ms1 ms2.
            published (snd (publish_container_discovery cfg mqtt_client c1 w)) = published w @ ms1 \<and>
            published (snd (publish_container_discovery cfg mqtt_client c2 w)) = published w @ ms2 \<and>
            ms1 = take (length ms1) (container_discovery_messages cfg (name c1)) \<and>
            ms2 = take (length ms2) (container_discovery_messages cfg (name c1)) \<and>
            (\<forall>i. i < length ms1 \<and> i < length ms2 \<longrightarrow> ms1 ! i = ms2 ! i) \<and>
            (ms1 = ms2 \<or> ms1 = [] \<or> ms2 = [])) \<and>
         ((\<exists>r1. discovery_image_info c1 = Inr r1) \<and> (\<exists>r2. discovery_image_info c2 = Inr r2) \<longrightarrow>
            publish_container_discovery cfg mqtt_client c1 w =
            publish_container_discovery cfg mqtt_client c2 w) \<and>
         (\<forall>image1 image2.
            config_image (attrs c1) = Inr image1 \<and> config_image (attrs c2) = Inr image2 \<longrightarrow>
            publish_container_discovery cfg mqtt_client c1 w =
            publish_container_discovery cfg mqtt_client c2 w)"
proof -
  let ?D = "container_discovery_messages cfg (name c1)"
  from publish_container_discovery_prefix [of cfg mqtt_client c1 w] obtain k1 where
    k1: "published (snd (publish_container_discovery cfg mqtt_client c1 w)) = published w @ take k1 ?D"
    by blast
  from publish_container_discovery_prefix [of cfg mqtt_client c2 w] assms obtain k2 where
    k2: "published (snd (publish_container_discovery cfg mqtt_client c2 w)) = published w @ take k2 ?D"
    by auto
  have same: "publish_container_discovery cfg mqtt_client c1 w =
              publish_container_discovery cfg mqtt_client c2 w"
    if "discovery_image_info c1 = Inr r1" and "discovery_image_info c2 = Inr r2" for r1 r2
    using publish_container_discovery_same [OF assms that] .
  have t1: "take k1 ?D = take (length (take k1 ?D)) ?D" by (simp add: min_def)
  have t2: "take k2 ?D = take (length (take k2 ?D)) ?D" by (simp add: min_def)
  have ix: "\<forall>i. i < length (take k1 ?D) \<and> i < length (take k2 ?D) \<longrightarrow> take k1 ?D ! i = take k2 ?D ! i"
    by simp
  have alt: "take k1 ?D = take k2 ?D \<or> take k1 ?D = [] \<or> take k2 ?D = []"
  proof (cases "mqtt_client = None \<and> DEBUG cfg")
    case True
    with k1 publish_container_discovery_debug [of mqtt_client cfg c1 w] show ?thesis by simp
  next
    case nd: False
    show ?thesis
    proof (cases "discovery_image_info c1")
      case (Inl e)
      from publish_container_discovery_lookup_raises [OF this nd, of w] k1 show ?thesis by simp
    next
      case r1: (Inr r1)
      show ?thesis
      proof (cases "discovery_image_info c2")
        case (Inl e)
        from publish_container_discovery_lookup_raises [OF this nd, of w] k2 show ?thesis by simp
      next
        case (Inr r2)
        from same [OF r1 Inr] k1 k2 show ?thesis by simp
      qed
    qed
  qed
  have cached: "publish_container_discovery cfg mqtt_client c1 w =
                publish_container_discovery cfg mqtt_client c2 w"
    if "config_image (attrs c1) = Inr image1" and "config_image (attrs c2) = Inr image2"
    for image1 image2
    using same discovery_image_info_cached [OF that(1)] discovery_image_info_cached [OF that(2)]
    by blast
  from k1 k2 t1 t2 ix alt same cached show ?thesis by blast
qed

theorem discovery_deterministic_witness:
  "name container_web = name container_web_stopped \<and>
   status container_web \<noteq> status container_web_stopped \<and>
   image_tags container_web \<noteq> image_tags container_web_stopped \<and>
   attrs container_web \<noteq> attrs container_web_stopped \<and>
   publish_container_discovery default_config (Some accepting_client) container_web empty_world =
   publish_container_discovery default_config (Some accepting_client) container_web_stopped empty_world \<and>
   length (published (snd (publish_container_discovery default_config (Some accepting_client)
                             container_web empty_world))) = 7"
proof -
  have n: "name container_web = name container_web_stopped"
    by (simp add: container_web_def container_web_stopped_def)
  have c1: "config_image (attrs container_web) = Inr ''nginx:1.25''"
    by (simp add: container_web_def config_image_def running_attrs_def)
  have c2: "config_image (attrs container_web_stopped) = Inr ''redis''"
    by (simp add: container_web_stopped_def config_image_def bare_attrs_def)
  note d = discovery_deterministic [OF n, of default_config "Some accepting_client" empty_world]
  from d c1 c2
  have e: "publish_container_discovery default_config (Some accepting_client) container_web empty_world =
        publish_container_discovery default_config (Some accepting_client) container_web_stopped empty_world"
    by blast
  have l: "length (published (snd (publish_container_discovery default_config (Some accepting_client)
                             container_web empty_world))) = 7"
    by code_simp
  have x: "status container_web \<noteq> status container_web_stopped"
    "image_tags container_web \<noteq> image_tags container_web_stopped"
    "attrs container_web \<noteq> attrs container_web_stopped"
    by (simp_all add: container_web_def container_web_stopped_def running_attrs_def bare_attrs_def)
  from n x e l show ?thesis by blast
qed

lemma count_list_concat_map:
  "count_list (concat (map f cs)) x = sum_list (map (\<lambda>c. count_list (f c) x) cs)"
  by (induction cs) simp_all

lemma count_sentrylab_container:
  "count_list (container_discovery_messages cfg n) (sentrylab_version_message cfg) = 1"
  by (simp add: container_discovery_messages_def sentrylab_version_message_def sentrylab_version_config_def
        binary_sensor_config_def state_sensor_config_def uptime_sensor_config_def
        health_sensor_config_def image_sensor_config_def image_version_config_def)

lemma count_sentrylab_summary:
  "count_list (summary_discovery_messages cfg) (sentrylab_version_message cfg) = 1"
  by (simp add: summary_discovery_messages_def sentrylab_version_message_def sentrylab_version_config_def
        total_config_def running_config_def stopped_config_def)

text \<open>
  Claim C10, as amended. In a discovery run as in C5 (not in debug mode, connected,
  every publish call accepted, no image lookup raising out of its handler) over \<open>n\<close>
  containers, the SentryLab version descriptor is published \<open>n + 1\<close> times: once among
  the fleet-level descriptors and once among the descriptors of each container. Each
  time it is the same message, on the topic
  \<^verbatim>\<open><HA_BASE_TOPIC>/sensor/docker_<DEVICE_ID>/sentrylab_version/config\<close>, with a payload
  that is a function of the configuration alone.
\<close>

theorem sentrylab_version_repeated:
  assumes "\<not> DEBUG cfg" and "from_env rt = None" and "connect rt = Connected cl" and "listing rt = Inr cs"
      and "\<forall>m. cl m = None"
      and "\<forall>c \<in> set cs. \<exists>r. discovery_image_info c = Inr r"
  shows "\<exists>ms. published (snd (discovery_main cfg rt w)) = published w @ ms \<and>
           count_list ms (sentrylab_version_message cfg) = length cs + 1 \<and>
           count_list (summary_discovery_messages cfg) (sentrylab_version_message cfg) = 1 \<and>
           (\<forall>c \<in> set cs.
              count_list (container_discovery_messages cfg (name c)) (sentrylab_version_message cfg) = 1) \<and>
           topic (sentrylab_version_message cfg) =
             HA_BASE_TOPIC cfg @ ''/sensor/docker_'' @ DEVICE_ID cfg @ ''/sentrylab_version/config'' \<and>
           payload (sentrylab_version_message cfg) = sentrylab_version_config cfg"
proof -
  from assms(5) have a5: "\<forall>m \<in> set (summary_discovery_messages cfg). cl m = None"
    and a7: "\<forall>c \<in> set cs. \<forall>m \<in> set (container_discovery_messages cfg (name c)). cl m = None"
    by simp_all
  let ?ms = "summary_discovery_messages cfg @
               concat (map (\<lambda>c. container_discovery_messages cfg (name c)) cs)"
  from discovery_main_published [OF assms(1-4) a5 assms(6) a7, of w]
  have p: "published (snd (discovery_main cfg rt w)) = published w @ ?ms" by simp
  have "sum_list (map (\<lambda>c. count_list (container_discovery_messages cfg (name c))
                               (sentrylab_version_message cfg)) cs) = length cs"
    by (induction cs) (simp_all add: count_sentrylab_container)
  then have c: "count_list ?ms (sentrylab_version_message cfg) = length cs + 1"
    by (simp add: count_list_concat_map count_sentrylab_summary)
  have t: "topic (sentrylab_version_message cfg) =
             HA_BASE_TOPIC cfg @ ''/sensor/docker_'' @ DEVICE_ID cfg @ ''/sentrylab_version/config''"
    and y: "payload (sentrylab_version_message cfg) = sentrylab_version_config cfg"
    by (simp_all add: sentrylab_version_message_def sentrylab_version_topic_def)
  have e: "\<forall>c \<in> set cs.
              count_list (container_discovery_messages cfg (name c)) (sentrylab_version_message cfg) = 1"
    by (simp add: count_sentrylab_container)
  from p c e t y count_sentrylab_summary [of cfg] show ?thesis by blast
qed

theorem sentrylab_version_repeated_witness:
  "count_list (published (snd (discovery_main default_config example_runtime empty_world)))
     (sentrylab_version_message default_config) = 3"
proof -
  have d: "\<not> DEBUG default_config" by (simp add: default_config_def)
  have i: "\<forall>c \<in> set [container_web, container_cache]. \<exists>r. discovery_image_info c = Inr r"
    by (simp add: discovery_image_info_def container_web_def container_cache_def
          config_image_def bare_attrs_def)
  have a: "\<forall>m. accepting_client m = None" by (simp add: accepting_client_def)
  from sentrylab_version_repeated [of default_config example_runtime accepting_client
            "[container_web, container_cache]" empty_world] d i a
  obtain ms where "published (snd (discovery_main default_config example_runtime empty_world)) =
                     published empty_world @ ms"
    and "count_list ms (sentrylab_version_message default_config) = length [container_web, container_cache] + 1"
    by (auto simp add: example_runtime_def)
  then show ?thesis by (simp add: empty_world_def)
qed

text \<open>
  Claim C10 as stated fails in debug mode: a run over two containers publishes the
  descriptor 0 times, not 3 times.
\<close>

theorem sentrylab_version_debug_counterexample:
  "listing example_runtime = Inr [container_web, container_cache] \<and>
   count_list (published (snd (discovery_main debug_config example_runtime empty_world)))
     (sentrylab_version_message debug_config) = 0"
proof -
  have "DEBUG debug_config" by (simp add: debug_config_def)
  from discovery_main_debug [OF this, of example_runtime empty_world]
  show ?thesis by (simp add: example_runtime_def empty_world_def)
qed

end
